theory Spec2Isabelle
  imports Complex_Main "HOL-Library.Sublist"
begin

section \<open>JavaScript strings\<close>

text \<open>
  A string is a list of characters. Isabelle's \<open>char\<close> has eight bits, so the model covers
  the strings whose code units are below 256 (Latin-1); within that range the character
  classes below are the ones of ECMAScript: the line terminators are LF and CR, white space
  is TAB, LF, VT, FF, CR, SP and NBSP.
\<close>

definition isLineTerminator :: "char \<Rightarrow> bool" where
  "isLineTerminator c \<longleftrightarrow> c = CHR 0x0A \<or> c = CHR 0x0D"

definition isWhiteSpace :: "char \<Rightarrow> bool" where
  "isWhiteSpace c \<longleftrightarrow>
     c = CHR 0x09 \<or> c = CHR 0x0A \<or> c = CHR 0x0B \<or> c = CHR 0x0C \<or> c = CHR 0x0D \<or>
     c = CHR 0x20 \<or> c = CHR 0xA0"

text \<open>\<open>String.prototype.trim\<close>: white space and line terminators go from both ends.\<close>

definition trim :: "string \<Rightarrow> string" where
  "trim s = rev (dropWhile isWhiteSpace (rev (dropWhile isWhiteSpace s)))"

text \<open>\<open>s.split(sep)\<close> for a one-character separator; the empty string gives one empty piece.\<close>

fun split :: "char \<Rightarrow> string \<Rightarrow> string list" where
  "split sep [] = [[]]"
| "split sep (c # cs) =
     (if c = sep then [] # split sep cs
      else (case split sep cs of [] \<Rightarrow> [[c]] | piece # pieces \<Rightarrow> (c # piece) # pieces))"

definition inRange :: "char \<Rightarrow> char \<Rightarrow> char \<Rightarrow> bool" where
  "inRange lo hi c \<longleftrightarrow> (of_char lo :: nat) \<le> of_char c \<and> (of_char c :: nat) \<le> of_char hi"

text \<open>
  \<open>parseInt(ds, 10)\<close> on a string of decimal digits, which is all the parsers pass to it
  (the text of a \<open>\d+\<close> group). The value is exact below \<open>2^53\<close>; beyond, JavaScript rounds
  to a double.
\<close>

definition parseInt :: "string \<Rightarrow> nat" where
  "parseInt ds = foldl (\<lambda>n c. 10 * n + (of_char c - 48)) 0 ds"

section \<open>Regular expressions\<close>

text \<open>
  The patterns of the source are built from single-character atoms, \<open>*\<close> and \<open>+\<close> on an atom
  (greedy or lazy), an optional group, \<open>^\<close>, \<open>$\<close>, sequence, alternation and capturing
  groups. A matcher state is the character before the current position, the rest of the
  input and the captures so far (newest first). \<open>ms\<close> lists the states a pattern can end
  in, in the order in which a backtracking matcher tries them; the matcher takes the first.
\<close>

datatype citem = CChar char | CRange char char | CDigit | CSpace

datatype atom = Lit char | Dot | Set bool "citem list"

fun citem_has :: "citem \<Rightarrow> char \<Rightarrow> bool" where
  "citem_has (CChar x) c = (c = x)"
| "citem_has (CRange lo hi) c = inRange lo hi c"
| "citem_has CDigit c = inRange CHR ''0'' CHR ''9'' c"
| "citem_has CSpace c = isWhiteSpace c"

text \<open>\<open>Set negated items\<close> is \<open>[...]\<close> or \<open>[^...]\<close>; \<open>.\<close> is any character but a line terminator.\<close>

fun atom_ok :: "atom \<Rightarrow> char \<Rightarrow> bool" where
  "atom_ok (Lit x) c = (c = x)"
| "atom_ok Dot c = (\<not> isLineTerminator c)"
| "atom_ok (Set negated items) c = (list_ex (\<lambda>i. citem_has i c) items \<noteq> negated)"

datatype re =
    Eps | Atom atom | Star bool atom | Opt re | Bol | Eol
  | Seq re re | Alt re re | Grp nat re

type_synonym captures = "(nat \<times> string) list"
type_synonym mstate = "char option \<times> string \<times> captures"

text \<open>The positions reachable by repeating an atom, fewest repetitions first.\<close>

fun runs :: "atom \<Rightarrow> char option \<Rightarrow> string \<Rightarrow> (char option \<times> string) list" where
  "runs a p [] = [(p, [])]"
| "runs a p (c # cs) = (p, c # cs) # (if atom_ok a c then runs a (Some c) cs else [])"

text \<open>
  \<open>ml\<close> is the \<open>m\<close> flag. An optional group that matches the empty string is not taken
  (ECMAScript's rule for a quantifier with minimum zero).
\<close>

fun ms :: "bool \<Rightarrow> re \<Rightarrow> mstate \<Rightarrow> mstate list" where
  "ms ml Eps s = [s]"
| "ms ml (Atom a) (p, r, cs) =
     (case r of [] \<Rightarrow> [] | c # r' \<Rightarrow> if atom_ok a c then [(Some c, r', cs)] else [])"
| "ms ml (Star greedy a) (p, r, cs) =
     map (\<lambda>(p', r'). (p', r', cs)) (if greedy then rev (runs a p r) else runs a p r)"
| "ms ml (Opt e) (p, r, cs) =
     filter (\<lambda>(p', r', cs'). length r' < length r) (ms ml e (p, r, cs)) @ [(p, r, cs)]"
| "ms ml Bol (p, r, cs) =
     (case p of None \<Rightarrow> [(p, r, cs)]
      | Some c \<Rightarrow> if ml \<and> isLineTerminator c then [(p, r, cs)] else [])"
| "ms ml Eol (p, r, cs) =
     (case r of [] \<Rightarrow> [(p, r, cs)]
      | c # _ \<Rightarrow> if ml \<and> isLineTerminator c then [(p, r, cs)] else [])"
| "ms ml (Seq e1 e2) s = concat (map (ms ml e2) (ms ml e1 s))"
| "ms ml (Alt e1 e2) s = ms ml e1 s @ ms ml e2 s"
| "ms ml (Grp n e) (p, r, cs) =
     map (\<lambda>(p', r', cs'). (p', r', (n, take (length r - length r') r) # cs'))
       (ms ml e (p, r, cs))"

fun seqs :: "re list \<Rightarrow> re" where
  "seqs [] = Eps"
| "seqs (e # es) = Seq e (seqs es)"

definition word :: "string \<Rightarrow> re" where
  "word w = seqs (map (\<lambda>c. Atom (Lit c)) w)"

definition Plus :: "bool \<Rightarrow> atom \<Rightarrow> re" where
  "Plus greedy a = Seq (Atom a) (Star greedy a)"

definition digit :: atom where
  "digit = Set False [CDigit]"

definition space :: atom where
  "space = Set False [CSpace]"

text \<open>
  One \<open>exec\<close>: the first match that starts at the current position or later, as the state
  it ends in. \<open>p\<close> is the character before the current position.
\<close>

fun search :: "bool \<Rightarrow> re \<Rightarrow> char option \<Rightarrow> string \<Rightarrow> mstate option" where
  "search ml e p [] = (case ms ml e (p, [], []) of [] \<Rightarrow> None | s # _ \<Rightarrow> Some s)"
| "search ml e p (c # cs) =
     (case ms ml e (p, c # cs, []) of [] \<Rightarrow> search ml e (Some c) cs | s # _ \<Rightarrow> Some s)"

text \<open>
  The loop \<open>while ((match = regex.exec(output)) !== null)\<close> of a \<open>/gm\<close> pattern: every
  \<open>exec\<close> starts where the last match ended (\<open>lastIndex\<close>). A pattern that matches the empty
  string never advances and the loop runs forever; that is the value \<open>None\<close>.
\<close>

partial_function (option) execAll :: "re \<Rightarrow> char option \<Rightarrow> string \<Rightarrow> captures list option" where
  "execAll e p r =
     (case search True e p r of
        None \<Rightarrow> Some []
      | Some (p', r', cs) \<Rightarrow> Option.bind (execAll e p' r') (\<lambda>found. Some (cs # found)))"

text \<open>
  \<open>match[n]\<close>. A group that took no part in the match is \<open>undefined\<close> in JavaScript; the empty
  string stands for it here. Only group 6 of the mypy pattern can be left out of a match
  (lemmas \<open>groups_take_part\<close> and \<open>sure_regexes\<close> below), and the source reads it as
  \<^verbatim>\<open>match[6] || ''\<close>.
\<close>

definition grp :: "captures \<Rightarrow> nat \<Rightarrow> string" where
  "grp m n = (case map_of m n of None \<Rightarrow> [] | Some s \<Rightarrow> s)"

text \<open>\<open>regex.test(s)\<close> of a pattern without flags.\<close>

definition test :: "re \<Rightarrow> string \<Rightarrow> bool" where
  "test e s = (search False e None s \<noteq> None)"

section \<open>Diagnostics and results\<close>

text \<open>
  \<open>BaseDiagnostic\<close> and \<open>BaseResult\<close> of index.ts; the runners' own interfaces extend them
  with \<open>code\<close>, \<open>skipped\<close> and \<open>tool\<close>. The field types are parameters: the tsc, go and
  python runners fill them with strings and numbers, the rust runner with whatever the
  decoded JSON holds.
\<close>

record ('s, 'n) BaseDiagnostic =
  file' :: 's
  line :: 'n
  column :: 'n
  message :: 's
  severity :: string

record ('s, 'n) CodeDiagnostic = "('s, 'n) BaseDiagnostic" +
  code :: 's

type_synonym GoDiagnostic = "(string, nat) BaseDiagnostic"
type_synonym TscDiagnostic = "(string, nat) CodeDiagnostic"
type_synonym PythonDiagnostic = "(string, nat) CodeDiagnostic"

record 'd BaseResult =
  success :: bool
  diagnostics :: "'d list"
  errorCount :: nat
  warningCount :: nat

record 'd ToolResult = "'d BaseResult" +
  skipped :: "string option"

datatype PythonTool = Mypy | Pylint | NoTool

record 'd PythonToolResult = "'d ToolResult" +
  tool :: PythonTool

type_synonym GoResult = "GoDiagnostic ToolResult"
type_synonym TscResult = "TscDiagnostic ToolResult"
type_synonym PythonResult = "PythonDiagnostic PythonToolResult"

text \<open>\<open>diagnostics.filter(d => d.severity === sev).length\<close>\<close>

definition countSeverity :: "string \<Rightarrow> ('s, 'n, 'z) BaseDiagnostic_scheme list \<Rightarrow> nat" where
  "countSeverity sev ds = length (filter (\<lambda>d. severity d = sev) ds)"

section \<open>The parsers of compiler and linter output\<close>

text \<open>\<^verbatim>\<open>/^(.+)\((\d+),(\d+)\):\s+(error|warning)\s+(TS\d+):\s+(.+)$/gm\<close>\<close>

definition tscRegex :: re where
  "tscRegex = seqs [Bol,
     Grp 1 (Plus True Dot), Atom (Lit CHR ''(''),
     Grp 2 (Plus True digit), Atom (Lit CHR '',''),
     Grp 3 (Plus True digit), Atom (Lit CHR '')''), Atom (Lit CHR '':''),
     Plus True space, Grp 4 (Alt (word ''error'') (word ''warning'')),
     Plus True space, Grp 5 (Seq (word ''TS'') (Plus True digit)), Atom (Lit CHR '':''),
     Plus True space, Grp 6 (Plus True Dot), Eol]"

definition tscDiagnostic :: "captures \<Rightarrow> TscDiagnostic" where
  "tscDiagnostic m =
     \<lparr>file' = grp m 1, line = parseInt (grp m 2), column = parseInt (grp m 3),
      message = grp m 6, severity = grp m 4, code = grp m 5\<rparr>"

definition parseTscOutput :: "string \<Rightarrow> TscResult option" where
  "parseTscOutput output =
     Option.bind (execAll tscRegex None output) (\<lambda>matches.
       let diagnostics = map tscDiagnostic matches;
           errorCount = countSeverity ''error'' diagnostics;
           warningCount = countSeverity ''warning'' diagnostics
       in Some \<lparr>success = (errorCount = 0), diagnostics = diagnostics,
                 errorCount = errorCount, warningCount = warningCount, skipped = None\<rparr>)"

text \<open>\<^verbatim>\<open>/^(.+?\.go):(\d+):(\d+):\s+(.+)$/gm\<close>\<close>

definition goRegex :: re where
  "goRegex = seqs [Bol,
     Grp 1 (Seq (Plus False Dot) (word ''.go'')), Atom (Lit CHR '':''),
     Grp 2 (Plus True digit), Atom (Lit CHR '':''),
     Grp 3 (Plus True digit), Atom (Lit CHR '':''),
     Plus True space, Grp 4 (Plus True Dot), Eol]"

definition goDiagnostic :: "captures \<Rightarrow> GoDiagnostic" where
  "goDiagnostic m =
     \<lparr>file' = grp m 1, line = parseInt (grp m 2), column = parseInt (grp m 3),
      message = grp m 4, severity = ''warning''\<rparr>"

definition parseGoOutput :: "string \<Rightarrow> GoResult option" where
  "parseGoOutput output =
     Option.bind (execAll goRegex None output) (\<lambda>matches.
       let diagnostics = map goDiagnostic matches
       in Some \<lparr>success = (length diagnostics = 0), diagnostics = diagnostics,
                 errorCount = 0, warningCount = length diagnostics, skipped = None\<rparr>)"

text \<open>\<^verbatim>\<open>/^(.+?\.py):(\d+):(\d+): (error|warning|note): (.+?)(?:\s+\[([^\]]+)\])?$/gm\<close>\<close>

definition mypyRegex :: re where
  "mypyRegex = seqs [Bol,
     Grp 1 (Seq (Plus False Dot) (word ''.py'')), Atom (Lit CHR '':''),
     Grp 2 (Plus True digit), Atom (Lit CHR '':''),
     Grp 3 (Plus True digit), Atom (Lit CHR '':''), Atom (Lit CHR '' ''),
     Grp 4 (Alt (word ''error'') (Alt (word ''warning'') (word ''note''))),
     Atom (Lit CHR '':''), Atom (Lit CHR '' ''),
     Grp 5 (Plus False Dot),
     Opt (seqs [Plus True space, Atom (Lit CHR ''[''),
                Grp 6 (Plus True (Set True [CChar CHR '']''])), Atom (Lit CHR '']'')]),
     Eol]"

definition mypyDiagnostic :: "captures \<Rightarrow> PythonDiagnostic" where
  "mypyDiagnostic m =
     \<lparr>file' = grp m 1, line = parseInt (grp m 2), column = parseInt (grp m 3),
      message = grp m 5,
      severity = (if grp m 4 = ''error'' then ''error'' else ''warning''),
      code = grp m 6\<rparr>"

definition parseMypyOutput :: "string \<Rightarrow> PythonResult option" where
  "parseMypyOutput output =
     Option.bind (execAll mypyRegex None output) (\<lambda>matches.
       let diagnostics = map mypyDiagnostic (filter (\<lambda>m. grp m 4 \<noteq> ''note'') matches);
           errorCount = countSeverity ''error'' diagnostics;
           warningCount = countSeverity ''warning'' diagnostics
       in Some \<lparr>success = (errorCount = 0), diagnostics = diagnostics,
                 errorCount = errorCount, warningCount = warningCount, skipped = None,
                 tool = Mypy\<rparr>)"

text \<open>\<^verbatim>\<open>/^(.+?\.py):(\d+):(\d+): ([A-Z]\d+): (.+)$/gm\<close>\<close>

definition pylintRegex :: re where
  "pylintRegex = seqs [Bol,
     Grp 1 (Seq (Plus False Dot) (word ''.py'')), Atom (Lit CHR '':''),
     Grp 2 (Plus True digit), Atom (Lit CHR '':''),
     Grp 3 (Plus True digit), Atom (Lit CHR '':''), Atom (Lit CHR '' ''),
     Grp 4 (Seq (Atom (Set False [CRange CHR ''A'' CHR ''Z''])) (Plus True digit)),
     Atom (Lit CHR '':''), Atom (Lit CHR '' ''),
     Grp 5 (Plus True Dot), Eol]"

definition startsWith :: "string \<Rightarrow> string \<Rightarrow> bool" where
  "startsWith s pre = prefix pre s"

definition pylintDiagnostic :: "captures \<Rightarrow> PythonDiagnostic" where
  "pylintDiagnostic m =
     (let code = grp m 4;
          isError = (startsWith code ''E'' \<or> startsWith code ''F'')
      in \<lparr>file' = grp m 1, line = parseInt (grp m 2), column = parseInt (grp m 3),
          message = grp m 5, severity = (if isError then ''error'' else ''warning''),
          code = code\<rparr>)"

definition parsePylintOutput :: "string \<Rightarrow> PythonResult option" where
  "parsePylintOutput output =
     Option.bind (execAll pylintRegex None output) (\<lambda>matches.
       let diagnostics = map pylintDiagnostic matches;
           errorCount = countSeverity ''error'' diagnostics;
           warningCount = countSeverity ''warning'' diagnostics
       in Some \<lparr>success = (errorCount = 0), diagnostics = diagnostics,
                 errorCount = errorCount, warningCount = warningCount, skipped = None,
                 tool = Pylint\<rparr>)"

section \<open>JSON values and the cargo parser\<close>

text \<open>
  What \<open>JSON.parse\<close> returns. A JavaScript value is a JSON value or \<open>undefined\<close>
  (\<open>None\<close>). \<open>JSON.parse\<close> itself belongs to the runtime and is a parameter of the parser:
  \<open>None\<close> is its \<open>SyntaxError\<close>.
\<close>

datatype json =
    JNull | JBool bool | JNum real | JStr string | JArr "json list" | JObj "(string \<times> json) list"

type_synonym jsval = "json option"

datatype error = TypeError | StatError

definition bindE :: "error + 'a \<Rightarrow> ('a \<Rightarrow> error + 'b) \<Rightarrow> error + 'b" where
  "bindE r f = (case r of Inl e \<Rightarrow> Inl e | Inr x \<Rightarrow> f x)"

fun truthy :: "jsval \<Rightarrow> bool" where
  "truthy None = False"
| "truthy (Some JNull) = False"
| "truthy (Some (JBool b)) = b"
| "truthy (Some (JNum x)) = (x \<noteq> 0)"
| "truthy (Some (JStr s)) = (s \<noteq> [])"
| "truthy (Some (JArr xs)) = True"
| "truthy (Some (JObj kvs)) = True"

text \<open>
  \<open>v.key\<close>, for the property names the parser reads (none of them is a property of a
  string, a number, a boolean or an array): reading a property of \<open>null\<close> or \<open>undefined\<close>
  throws a \<open>TypeError\<close>.
\<close>

fun getProp :: "jsval \<Rightarrow> string \<Rightarrow> error + jsval" where
  "getProp None key = Inl TypeError"
| "getProp (Some JNull) key = Inl TypeError"
| "getProp (Some (JObj kvs)) key = Inr (map_of kvs key)"
| "getProp (Some v) key = Inr None"

text \<open>\<open>v?.key\<close>\<close>

fun optProp :: "jsval \<Rightarrow> string \<Rightarrow> error + jsval" where
  "optProp None key = Inr None"
| "optProp (Some JNull) key = Inr None"
| "optProp v key = getProp v key"

text \<open>\<open>xs.find(s => s.is_primary)\<close> on an array.\<close>

fun findPrimary :: "json list \<Rightarrow> error + jsval" where
  "findPrimary [] = Inr None"
| "findPrimary (s # rest) =
     bindE (getProp (Some s) ''is_primary'')
       (\<lambda>p. if truthy p then Inr (Some s) else findPrimary rest)"

text \<open>
  \<open>spans?.find(s => s.is_primary)\<close>: a value that is neither nullish nor an array has no
  function \<open>find\<close>, and the call throws a \<open>TypeError\<close>.
\<close>

fun optFindPrimary :: "jsval \<Rightarrow> error + jsval" where
  "optFindPrimary None = Inr None"
| "optFindPrimary (Some JNull) = Inr None"
| "optFindPrimary (Some (JArr xs)) = findPrimary xs"
| "optFindPrimary (Some v) = Inl TypeError"

type_synonym RustDiagnostic = "(jsval, jsval) CodeDiagnostic"
type_synonym RustResult = "RustDiagnostic ToolResult"

text \<open>
  The diagnostic pushed for a message and its primary span. \<open>innerMessage.level\<close> is the
  string \<open>error\<close> or \<open>warning\<close> here.
\<close>

definition rustDiagnostic :: "jsval \<Rightarrow> jsval \<Rightarrow> jsval \<Rightarrow> error + RustDiagnostic" where
  "rustDiagnostic innerMessage level primarySpan =
     bindE (getProp innerMessage ''code'') (\<lambda>code0.
     bindE (optProp code0 ''code'') (\<lambda>code1.
     bindE (getProp innerMessage ''message'') (\<lambda>message1.
     bindE (getProp primarySpan ''file_name'') (\<lambda>file_name.
     bindE (getProp primarySpan ''line_start'') (\<lambda>line_start.
     bindE (getProp primarySpan ''column_start'') (\<lambda>column_start.
       Inr \<lparr>file' = file_name, line = line_start, column = column_start,
            message = message1,
            severity = (case level of Some (JStr l) \<Rightarrow> l | _ \<Rightarrow> []),
            code = (if truthy code1 then code1 else Some (JStr []))\<rparr>))))))"

text \<open>The body of the loop over the lines: \<open>Inr None\<close> is \<open>continue\<close>.\<close>

definition rustLine ::
  "(string \<Rightarrow> json option) \<Rightarrow> string \<Rightarrow> error + RustDiagnostic option" where
  "rustLine jsonParse line0 =
     (let trimmedLine = trim line0 in
      if trimmedLine = [] then Inr None
      else case jsonParse trimmedLine of
        None \<Rightarrow> Inr None
      | Some msg \<Rightarrow>
          bindE (getProp (Some msg) ''reason'') (\<lambda>reason.
          if reason \<noteq> Some (JStr ''compiler-message'') then Inr None
          else bindE (getProp (Some msg) ''message'') (\<lambda>innerMessage.
          if \<not> truthy innerMessage then Inr None
          else bindE (getProp innerMessage ''level'') (\<lambda>level.
          if level \<noteq> Some (JStr ''error'') \<and> level \<noteq> Some (JStr ''warning'') then Inr None
          else bindE (getProp innerMessage ''spans'') (\<lambda>spans.
               bindE (optFindPrimary spans) (\<lambda>primarySpan.
          if \<not> truthy primarySpan then Inr None
          else bindE (rustDiagnostic innerMessage level primarySpan) (\<lambda>d. Inr (Some d))))))))"

fun rustLoop ::
  "(string \<Rightarrow> json option) \<Rightarrow> string list \<Rightarrow> RustDiagnostic list \<Rightarrow> error + RustDiagnostic list"
where
  "rustLoop jsonParse [] ds = Inr ds"
| "rustLoop jsonParse (l # ls) ds =
     bindE (rustLine jsonParse l) (\<lambda>r.
       rustLoop jsonParse ls (case r of None \<Rightarrow> ds | Some d \<Rightarrow> ds @ [d]))"

definition parseRustOutput :: "(string \<Rightarrow> json option) \<Rightarrow> string \<Rightarrow> error + RustResult" where
  "parseRustOutput jsonParse output =
     bindE (rustLoop jsonParse (split CHR 0x0A output) []) (\<lambda>diagnostics.
       let errorCount = countSeverity ''error'' diagnostics;
           warningCount = countSeverity ''warning'' diagnostics
       in Inr \<lparr>success = (errorCount = 0), diagnostics = diagnostics,
                errorCount = errorCount, warningCount = warningCount, skipped = None\<rparr>)"

section \<open>The environment\<close>

text \<open>
  What \<open>execFileSync\<close> throws: the \<open>code\<close> of a spawn failure (\<open>ENOENT\<close> when the binary is
  not on the search path; absent when the tool ran and exited non-zero) and the two output
  streams. The source reads the streams only through \<open>||\<close>, where \<open>null\<close>, \<open>undefined\<close> and
  the empty string behave alike, so the empty string stands for all three.
\<close>

record ExecError =
  errorCode :: "string option"
  stdout :: string
  stderr :: string

datatype ExecOutcome = Completed string | Thrown ExecError

record Stats =
  isDirectory :: bool
  isFile :: bool

text \<open>
  Modelled from the spec: the type \<open>Diagnostic\<close> of \<^verbatim>\<open>../lsp/index.js\<close>, whose declaration
  is not among the sources. The spec gives the diagnostics of a session as a sequence of
  {line, column, message, severity as a numeric code, code?}, where the code 1 is an
  error and 2 a warning.
\<close>

record Diagnostic =
  lspLine :: nat
  lspColumn :: nat
  lspMessage :: string
  lspSeverity :: int
  lspCode :: "string option"

text \<open>
  What the code calls and does not define, as parameters: the file system (\<open>fs\<close>), the
  path functions, the process spawner and the platform of Node, \<open>JSON.parse\<close> and the
  conversion of a value to a string in a template literal, the session manager
  \<open>lspClientManager\<close> with its clients (\<^verbatim>\<open>../lsp/index.js\<close>) and \<open>formatDiagnostics\<close>
  (\<^verbatim>\<open>../lsp/utils.js\<close>). \<open>None\<close> is a call that throws. \<open>'l\<close> is the state of the
  language-server sessions and \<open>'c\<close> a client; \<open>getClientForFile\<close> answers \<open>Some None\<close>
  when no server is configured for the file. The conversion to a string is taken to return
  for every value, where JavaScript throws a \<open>TypeError\<close> for an object whose \<open>toString\<close>
  is not callable.
\<close>

record ('l, 'c) Env =
  existsSync :: "string \<Rightarrow> bool"
  statSync :: "string \<Rightarrow> Stats option"
  realpathSync :: "string \<Rightarrow> string option"
  readdirSync :: "string \<Rightarrow> string list option"
  join :: "string \<Rightarrow> string \<Rightarrow> string"
  extname :: "string \<Rightarrow> string"
  execFileSync :: "string \<Rightarrow> string list \<Rightarrow> string option \<Rightarrow> ExecOutcome"
  platform :: string
  jsonParse :: "string \<Rightarrow> json option"
  toString :: "jsval \<Rightarrow> string"
  getClientForFile :: "'l \<Rightarrow> string \<Rightarrow> 'c option option \<times> 'l"
  openDocument :: "'l \<Rightarrow> 'c \<Rightarrow> string \<Rightarrow> unit option \<times> 'l"
  getDiagnostics :: "'l \<Rightarrow> 'c \<Rightarrow> string \<Rightarrow> Diagnostic list option \<times> 'l"
  formatDiagnostics :: "Diagnostic list \<Rightarrow> string \<Rightarrow> string"

datatype Strategy = Tsc | Go | Rust | Python | Lsp

text \<open>
  The calls a run makes, in order: the entry into the project type detector and into a
  runner (with the directory it is given), and every external process (command, arguments,
  working directory).
\<close>

datatype event =
    CallDetect string
  | CallRunner Strategy string
  | Exec string "string list" "string option"

text \<open>
  The state a run changes: the calls made so far, the module variable
  \<open>_cachedExtensions\<close> and the state of the language-server sessions.
\<close>

record 'l World =
  trace :: "event list"
  cachedExtensions :: "string list option"
  lspState :: 'l

definition logEvent :: "event \<Rightarrow> 'l World \<Rightarrow> 'l World" where
  "logEvent e w = w\<lparr>trace := trace w @ [e]\<rparr>"

definition spawn ::
  "('l, 'c) Env \<Rightarrow> string \<Rightarrow> string list \<Rightarrow> string option \<Rightarrow> 'l World \<Rightarrow> ExecOutcome \<times> 'l World"
where
  "spawn env cmd args cwd w = (execFileSync env cmd args cwd, logEvent (Exec cmd args cwd) w)"

text \<open>\<open>a || b\<close> on strings.\<close>

definition orElse :: "string \<Rightarrow> string \<Rightarrow> string" where
  "orElse a b = (if a \<noteq> [] then a else b)"

section \<open>commandExists (servers.ts)\<close>

text \<open>\<^verbatim>\<open>/^[a-zA-Z][a-zA-Z0-9._-]*$/\<close>\<close>

definition commandRegex :: re where
  "commandRegex = seqs [Bol,
     Atom (Set False [CRange CHR ''a'' CHR ''z'', CRange CHR ''A'' CHR ''Z'']),
     Star True (Set False [CRange CHR ''a'' CHR ''z'', CRange CHR ''A'' CHR ''Z'',
                           CRange CHR ''0'' CHR ''9'', CChar CHR ''.'', CChar CHR ''_'',
                           CChar CHR ''-'']),
     Eol]"

definition commandExists :: "('l, 'c) Env \<Rightarrow> string \<Rightarrow> 'l World \<Rightarrow> bool \<times> 'l World" where
  "commandExists env command w =
     (if command = [] \<or> \<not> test commandRegex command then (False, w)
      else let checkCommand = (if platform env = ''win32'' then ''where'' else ''which'')
           in case spawn env checkCommand [command] None w of
                (Completed out, w') \<Rightarrow> (True, w')
              | (Thrown err, w') \<Rightarrow> (False, w'))"

section \<open>The runners\<close>

definition cleanResult :: "'d ToolResult" where
  "cleanResult =
     \<lparr>success = True, diagnostics = [], errorCount = 0, warningCount = 0, skipped = None\<rparr>"

definition skippedResult :: "string \<Rightarrow> 'd ToolResult" where
  "skippedResult reason =
     \<lparr>success = True, diagnostics = [], errorCount = 0, warningCount = 0,
      skipped = Some reason\<rparr>"

definition crashDiagnostic :: "string \<Rightarrow> string \<Rightarrow> (string, nat) CodeDiagnostic" where
  "crashDiagnostic crashCode msg =
     \<lparr>file' = ''.'', line = 0, column = 0, message = msg, severity = ''error'',
      code = crashCode\<rparr>"

definition runTscDiagnostics ::
  "('l, 'c) Env \<Rightarrow> string \<Rightarrow> 'l World \<Rightarrow> TscResult option \<times> 'l World" where
  "runTscDiagnostics env directory w0 =
     (let w = logEvent (CallRunner Tsc directory) w0;
          tsconfigPath = join env directory ''tsconfig.json''
      in if \<not> existsSync env tsconfigPath
         then (Some (skippedResult ''no tsconfig.json found in directory''), w)
         else case spawn env ''tsc'' [''--noEmit'', ''--pretty'', ''false''] (Some directory) w of
           (Completed out, w') \<Rightarrow> (Some cleanResult, w')
         | (Thrown err, w') \<Rightarrow>
             if errorCode err = Some ''ENOENT''
             then (Some (skippedResult ''`tsc` binary not found in PATH''), w')
             else let output = orElse (stdout err) (orElse (stderr err) [])
                  in if trim output = []
                     then (Some \<lparr>success = False,
                             diagnostics = [crashDiagnostic ''tsc-crash''
                               ''tsc exited with errors but produced no diagnostic output (possible configuration issue)''],
                             errorCount = 1, warningCount = 0, skipped = None\<rparr>, w')
                     else (parseTscOutput output, w'))"

definition runGoDiagnostics ::
  "('l, 'c) Env \<Rightarrow> string \<Rightarrow> 'l World \<Rightarrow> GoResult option \<times> 'l World" where
  "runGoDiagnostics env directory w0 =
     (let w = logEvent (CallRunner Go directory) w0;
          goModPath = join env directory ''go.mod''
      in if \<not> existsSync env goModPath
         then (Some (skippedResult ''no go.mod found in directory''), w)
         else case spawn env ''go'' [''vet'', ''./...''] (Some directory) w of
           (Completed out, w') \<Rightarrow> (Some cleanResult, w')
         | (Thrown err, w') \<Rightarrow>
             if errorCode err = Some ''ENOENT''
             then (Some (skippedResult ''`go` binary not found in PATH''), w')
             else let output = orElse (stderr err) (orElse (stdout err) [])
                  in (parseGoOutput output, w'))"

definition runRustDiagnostics ::
  "('l, 'c) Env \<Rightarrow> string \<Rightarrow> 'l World \<Rightarrow> (error + RustResult) \<times> 'l World" where
  "runRustDiagnostics env directory w0 =
     (let w = logEvent (CallRunner Rust directory) w0;
          cargoPath = join env directory ''Cargo.toml''
      in if \<not> existsSync env cargoPath
         then (Inr (skippedResult ''no Cargo.toml found in directory''), w)
         else case spawn env ''cargo'' [''check'', ''--message-format=json''] (Some directory) w of
           (Completed out, w') \<Rightarrow> (Inr cleanResult, w')
         | (Thrown err, w') \<Rightarrow>
             if errorCode err = Some ''ENOENT''
             then (Inr (skippedResult ''`cargo` binary not found in PATH''), w')
             else let output = orElse (stdout err) (orElse (stderr err) [])
                  in (parseRustOutput (jsonParse env) output, w'))"

definition pythonResult :: "PythonTool \<Rightarrow> PythonDiagnostic ToolResult \<Rightarrow> PythonResult" where
  "pythonResult t r = ToolResult.extend r (PythonToolResult.fields t)"

definition runMypy ::
  "('l, 'c) Env \<Rightarrow> string \<Rightarrow> 'l World \<Rightarrow> PythonResult option \<times> 'l World" where
  "runMypy env directory w =
     (case spawn env ''mypy'' [''.'', ''--ignore-missing-imports''] (Some directory) w of
        (Completed out, w') \<Rightarrow> (Some (pythonResult Mypy cleanResult), w')
      | (Thrown err, w') \<Rightarrow>
          let output = orElse (stdout err) []
          in if errorCode err = Some ''ENOENT''
             then (Some (pythonResult Mypy (skippedResult ''`mypy` binary not found in PATH'')), w')
             else if trim output = []
             then (Some \<lparr>success = False,
                     diagnostics = [crashDiagnostic ''mypy-crash''
                       ''mypy exited with errors but produced no diagnostic output (possible configuration issue)''],
                     errorCount = 1, warningCount = 0, skipped = None, tool = Mypy\<rparr>, w')
             else (parseMypyOutput output, w'))"

definition runPylint ::
  "('l, 'c) Env \<Rightarrow> string \<Rightarrow> 'l World \<Rightarrow> PythonResult option \<times> 'l World" where
  "runPylint env directory w =
     (case spawn env ''pylint'' [''--output-format=text'', ''--score=no'', ''.''] (Some directory) w of
        (Completed out, w') \<Rightarrow> (Some (pythonResult Pylint cleanResult), w')
      | (Thrown err, w') \<Rightarrow>
          let output = orElse (stdout err) (orElse (stderr err) [])
          in if errorCode err = Some ''ENOENT''
             then (Some (pythonResult Pylint (skippedResult ''`pylint` binary not found in PATH'')), w')
             else if trim output = []
             then (Some \<lparr>success = False,
                     diagnostics = [crashDiagnostic ''pylint-crash''
                       ''pylint exited with errors but produced no diagnostic output (possible configuration issue)''],
                     errorCount = 1, warningCount = 0, skipped = None, tool = Pylint\<rparr>, w')
             else (parsePylintOutput output, w'))"

definition runPythonDiagnostics ::
  "('l, 'c) Env \<Rightarrow> string \<Rightarrow> 'l World \<Rightarrow> PythonResult option \<times> 'l World" where
  "runPythonDiagnostics env directory w0 =
     (let w = logEvent (CallRunner Python directory) w0;
          hasPyproject = existsSync env (join env directory ''pyproject.toml'');
          hasRequirements = existsSync env (join env directory ''requirements.txt'');
          hasSetupPy = existsSync env (join env directory ''setup.py'')
      in if \<not> hasPyproject \<and> \<not> hasRequirements \<and> \<not> hasSetupPy
         then (Some (pythonResult NoTool (skippedResult
                 ''no Python project files found (pyproject.toml, requirements.txt, or setup.py)'')), w)
         else case commandExists env ''mypy'' w of
           (True, w1) \<Rightarrow> runMypy env directory w1
         | (False, w1) \<Rightarrow>
             (case commandExists env ''pylint'' w1 of
                (True, w2) \<Rightarrow> runPylint env directory w2
              | (False, w2) \<Rightarrow>
                  (Some (pythonResult NoTool
                     (skippedResult ''neither mypy nor pylint found in PATH'')), w2)))"

section \<open>The LSP aggregator\<close>

text \<open>
  \<open>LSP_SERVERS\<close> of servers.ts, as the key and the \<open>extensions\<close> of every entry, in the
  order of the table (the aggregator reads no other field).
\<close>

definition LSP_SERVERS :: "(string \<times> string list) list" where
  "LSP_SERVERS =
     [(''typescript'', [''.ts'', ''.tsx'', ''.js'', ''.jsx'', ''.mts'', ''.cts'', ''.mjs'', ''.cjs'']),
      (''python'', [''.py'', ''.pyw'']),
      (''rust'', [''.rs'']),
      (''go'', [''.go'']),
      (''c'', [''.c'', ''.h'', ''.cpp'', ''.cc'', ''.cxx'', ''.hpp'', ''.hxx'']),
      (''java'', [''.java'']),
      (''json'', [''.json'', ''.jsonc'']),
      (''html'', [''.html'', ''.htm'']),
      (''css'', [''.css'', ''.scss'', ''.less'']),
      (''yaml'', [''.yaml'', ''.yml'']),
      (''ruby'', [''.rb'', ''.rake'', ''.gemspec'']),
      (''php'', [''.php'', ''.phtml'']),
      (''lua'', [''.lua'']),
      (''bash'', [''.sh'', ''.bash'', ''.zsh'']),
      (''elixir'', [''.ex'', ''.exs'']),
      (''kotlin'', [''.kt'', ''.kts'']),
      (''swift'', [''.swift'']),
      (''csharp'', [''.cs'']),
      (''scala'', [''.scala'', ''.sc'', ''.sbt'']),
      (''zig'', [''.zig'']),
      (''haskell'', [''.hs'', ''.lhs''])]"

text \<open>Adding to a \<open>Set\<close>: the first occurrence keeps its place.\<close>

definition setAdd :: "'a list \<Rightarrow> 'a \<Rightarrow> 'a list" where
  "setAdd xs x = (if x \<in> set xs then xs else xs @ [x])"

definition getAllSupportedExtensions :: "'l World \<Rightarrow> string list \<times> 'l World" where
  "getAllSupportedExtensions w =
     (case cachedExtensions w of
        Some cached \<Rightarrow> (cached, w)
      | None \<Rightarrow>
          let extensions = foldl setAdd [] (concat (map snd LSP_SERVERS))
          in (extensions, w\<lparr>cachedExtensions := Some extensions\<rparr>))"

definition invalidateExtensionCache :: "'l World \<Rightarrow> 'l World" where
  "invalidateExtensionCache w = w\<lparr>cachedExtensions := None\<rparr>"

text \<open>
  \<open>findFiles\<close>: the nested \<open>walk\<close> as a depth-first traversal of a list of pending
  (directory, entry) pairs. An entry whose \<open>statSync\<close> throws is skipped, and so is a
  directory that cannot be read. On a file system that never ends the walk does not
  return: the value \<open>None\<close>.
\<close>

partial_function (option) walk ::
  "('l, 'c) Env \<Rightarrow> string list \<Rightarrow> string list \<Rightarrow> (string \<times> string) list \<Rightarrow> string list option"
where
  "walk env extensions ignoreDirs pending =
     (case pending of
        [] \<Rightarrow> Some []
      | (dir, entry) # rest \<Rightarrow>
          let fullPath = join env dir entry in
          case statSync env fullPath of
            None \<Rightarrow> walk env extensions ignoreDirs rest
          | Some stat \<Rightarrow>
              if isDirectory stat then
                (if entry \<notin> set ignoreDirs then
                   (case readdirSync env fullPath of
                      None \<Rightarrow> walk env extensions ignoreDirs rest
                    | Some entries \<Rightarrow>
                        walk env extensions ignoreDirs (map (Pair fullPath) entries @ rest))
                 else walk env extensions ignoreDirs rest)
              else if isFile stat then
                (if extname env fullPath \<in> set extensions then
                   Option.bind (walk env extensions ignoreDirs rest)
                     (\<lambda>results. Some (fullPath # results))
                 else walk env extensions ignoreDirs rest)
              else walk env extensions ignoreDirs rest)"

definition findFiles ::
  "('l, 'c) Env \<Rightarrow> string \<Rightarrow> string list \<Rightarrow> string list \<Rightarrow> string list option" where
  "findFiles env directory extensions ignoreDirs =
     (case readdirSync env directory of
        None \<Rightarrow> Some []
      | Some entries \<Rightarrow> walk env extensions ignoreDirs (map (Pair directory) entries))"

record LspDiagnosticWithFile =
  filePath :: string
  diagnostic :: Diagnostic

record LspAggregationResult = "LspDiagnosticWithFile BaseResult" +
  filesChecked :: nat

text \<open>
  The \<open>try\<close> block for one file: \<open>None\<close> when the file is skipped (no client, or a call
  threw), else the diagnostics read back. The wait between \<open>openDocument\<close> and
  \<open>getDiagnostics\<close> has no counterpart here.
\<close>

definition lspFile ::
  "('l, 'c) Env \<Rightarrow> string \<Rightarrow> 'l World \<Rightarrow> Diagnostic list option \<times> 'l World" where
  "lspFile env f w =
     (case getClientForFile env (lspState w) f of
        (None, l1) \<Rightarrow> (None, w\<lparr>lspState := l1\<rparr>)
      | (Some None, l1) \<Rightarrow> (None, w\<lparr>lspState := l1\<rparr>)
      | (Some (Some client), l1) \<Rightarrow>
          (case openDocument env l1 client f of
             (None, l2) \<Rightarrow> (None, w\<lparr>lspState := l2\<rparr>)
           | (Some u, l2) \<Rightarrow>
               (case getDiagnostics env l2 client f of
                  (None, l3) \<Rightarrow> (None, w\<lparr>lspState := l3\<rparr>)
                | (Some ds, l3) \<Rightarrow> (Some ds, w\<lparr>lspState := l3\<rparr>))))"

fun lspLoop ::
  "('l, 'c) Env \<Rightarrow> string list \<Rightarrow> LspDiagnosticWithFile list \<Rightarrow> nat \<Rightarrow> 'l World
   \<Rightarrow> LspDiagnosticWithFile list \<times> nat \<times> 'l World" where
  "lspLoop env [] allDiagnostics checked w = (allDiagnostics, checked, w)"
| "lspLoop env (f # fs) allDiagnostics checked w =
     (case lspFile env f w of
        (None, w') \<Rightarrow> lspLoop env fs allDiagnostics checked w'
      | (Some ds, w') \<Rightarrow>
          lspLoop env fs
            (allDiagnostics @ map (\<lambda>d. \<lparr>filePath = f, diagnostic = d\<rparr>) ds) (checked + 1) w')"

definition runLspAggregatedDiagnostics ::
  "('l, 'c) Env \<Rightarrow> string \<Rightarrow> string list option \<Rightarrow> 'l World
   \<Rightarrow> LspAggregationResult option \<times> 'l World" where
  "runLspAggregatedDiagnostics env directory extensions w0 =
     (let w = logEvent (CallRunner Lsp directory) w0;
          (effectiveExtensions, w1) =
            (case extensions of Some given \<Rightarrow> (given, w) | None \<Rightarrow> getAllSupportedExtensions w)
      in case findFiles env directory effectiveExtensions
                [''node_modules'', ''dist'', ''build'', ''.git''] of
           None \<Rightarrow> (None, w1)
         | Some files \<Rightarrow>
             let (allDiagnostics, checked, w2) = lspLoop env files [] 0 w1;
                 errorCount = length (filter (\<lambda>d. lspSeverity (diagnostic d) = 1) allDiagnostics);
                 warningCount = length (filter (\<lambda>d. lspSeverity (diagnostic d) = 2) allDiagnostics)
             in (Some \<lparr>success = (errorCount = 0), diagnostics = allDiagnostics,
                       errorCount = errorCount, warningCount = warningCount,
                       filesChecked = checked\<rparr>, w2))"

section \<open>The dispatcher (index.ts)\<close>

datatype DiagnosticsStrategy = Named Strategy | Auto

datatype ResultStrategy = Ran Strategy | Skipped

text \<open>
  \<open>DirectoryDiagnosticResult\<close>: \<open>success\<close>, \<open>errorCount\<close>, \<open>warningCount\<close> and the text
  \<open>diagnostics\<close> (a string is a list of characters), with \<open>strategy\<close> and \<open>summary\<close>.
\<close>

record DirectoryDiagnosticResult = "char BaseResult" +
  strategy :: ResultStrategy
  summary :: string

text \<open>A number in a template literal, for the natural numbers.\<close>

function showNat :: "nat \<Rightarrow> string" where
  "showNat n =
     (if n < 10 then [char_of (48 + n)]
      else showNat (n div 10) @ [char_of (48 + n mod 10)])"
  by pat_completeness auto
termination
  by (relation "measure id") auto

fun joinWith :: "string \<Rightarrow> string list \<Rightarrow> string" where
  "joinWith sep [] = []"
| "joinWith sep [x] = x"
| "joinWith sep (x # y # zs) = x @ sep @ joinWith sep (y # zs)"

text \<open>
  The \<open>Map\<close> from file to diagnostics: a new key goes to the end, a known key keeps its
  place. \<open>same\<close> is the equality of keys.
\<close>

fun addToFile :: "('k \<Rightarrow> 'k \<Rightarrow> bool) \<Rightarrow> 'k \<Rightarrow> 'v \<Rightarrow> ('k \<times> 'v list) list \<Rightarrow> ('k \<times> 'v list) list" where
  "addToFile same k v [] = [(k, [v])]"
| "addToFile same k v ((k', vs) # rest) =
     (if same k' k then (k', vs @ [v]) # rest else (k', vs) # addToFile same k v rest)"

text \<open>
  \<open>formatDiagnosticResult\<close>, generic in the diagnostic: \<open>same\<close> compares two files as the
  keys of a \<open>Map\<close>, \<open>str\<close> and \<open>num\<close> print a field in a template literal and \<open>codeTag\<close> is
  the text of \<^verbatim>\<open>'code' in diag && diag.code ? ` [${diag.code}]` : ''\<close>.
\<close>

definition formatDiagnosticResult ::
  "('s \<Rightarrow> 's \<Rightarrow> bool) \<Rightarrow> ('s \<Rightarrow> string) \<Rightarrow> ('n \<Rightarrow> string)
   \<Rightarrow> (('s, 'n, 'y) BaseDiagnostic_scheme \<Rightarrow> string)
   \<Rightarrow> (('s, 'n, 'y) BaseDiagnostic_scheme, 'z) BaseResult_scheme
   \<Rightarrow> Strategy \<Rightarrow> string \<Rightarrow> DirectoryDiagnosticResult" where
  "formatDiagnosticResult same str num codeTag result strat toolName =
     (let (text, summ) =
        (if length (diagnostics result) = 0
         then (''No diagnostics found. '' @ toolName @ '' passed!'',
               toolName @ '' passed: 0 errors, 0 warnings'')
         else
           let byFile = foldl (\<lambda>m diag. addToFile same (file' diag) diag m) [] (diagnostics result);
               fileOutputs =
                 map (\<lambda>(f, diags).
                        str f @ '':'' @ [CHR 0x0A] @
                        concat (map (\<lambda>diag.
                          ''  '' @ num (line diag) @ '':'' @ num (column diag) @ '' - '' @
                          severity diag @ codeTag diag @ '': '' @ str (message diag) @ [CHR 0x0A])
                          diags))
                     byFile
           in (joinWith [CHR 0x0A] fileOutputs,
               toolName @ '' '' @ (if success result then ''passed'' else ''failed'') @ '': '' @
               showNat (errorCount result) @ '' errors, '' @
               showNat (warningCount result) @ '' warnings''))
      in \<lparr>success = success result, diagnostics = text, errorCount = errorCount result,
          warningCount = warningCount result, strategy = Ran strat, summary = summ\<rparr>)"

definition makeSkippedResult :: "string \<Rightarrow> DirectoryDiagnosticResult" where
  "makeSkippedResult summ =
     \<lparr>success = True, diagnostics = [], errorCount = 0, warningCount = 0,
      strategy = Skipped, summary = summ\<rparr>"

datatype ProjectType = PTypescript | PGo | PRust | PPython | PUnknown

definition detectProjectType ::
  "('l, 'c) Env \<Rightarrow> string \<Rightarrow> 'l World \<Rightarrow> ProjectType \<times> 'l World" where
  "detectProjectType env directory w0 =
     (let w = logEvent (CallDetect directory) w0
      in if existsSync env (join env directory ''tsconfig.json'') then (PTypescript, w)
         else if existsSync env (join env directory ''go.mod'') then (PGo, w)
         else if existsSync env (join env directory ''Cargo.toml'') then (PRust, w)
         else if existsSync env (join env directory ''pyproject.toml'') \<or>
                 existsSync env (join env directory ''requirements.txt'') \<or>
                 existsSync env (join env directory ''setup.py'') then (PPython, w)
         else (PUnknown, w))"

text \<open>\<open>if (result.skipped)\<close>: the reason when it is a non-empty string.\<close>

definition skippedReason :: "('d, 'z) ToolResult_scheme \<Rightarrow> string option" where
  "skippedReason result =
     (case skipped result of None \<Rightarrow> None | Some s \<Rightarrow> if s = [] then None else Some s)"

definition codeTagString :: "(string, nat) CodeDiagnostic \<Rightarrow> string" where
  "codeTagString diag = (if code diag \<noteq> [] then '' ['' @ code diag @ '']'' else [])"

definition formatTscResult :: "TscResult \<Rightarrow> DirectoryDiagnosticResult" where
  "formatTscResult result =
     (case skippedReason result of
        Some reason \<Rightarrow> makeSkippedResult (''TypeScript diagnostics skipped: '' @ reason)
      | None \<Rightarrow>
          formatDiagnosticResult (=) id showNat codeTagString result Tsc ''TypeScript check'')"

definition formatGoResult :: "GoResult \<Rightarrow> DirectoryDiagnosticResult" where
  "formatGoResult result =
     (case skippedReason result of
        Some reason \<Rightarrow> makeSkippedResult (''Go diagnostics skipped: '' @ reason)
      | None \<Rightarrow> formatDiagnosticResult (=) id showNat (\<lambda>diag. []) result Go ''Go vet'')"

text \<open>
  Two files of cargo diagnostics are the same key of the \<open>Map\<close> when they are the same
  primitive value; an array or an object is a key of its own.
\<close>

fun sameValueZero :: "jsval \<Rightarrow> jsval \<Rightarrow> bool" where
  "sameValueZero (Some (JArr xs)) b = False"
| "sameValueZero (Some (JObj kvs)) b = False"
| "sameValueZero a b = (a = b)"

definition formatRustResult :: "('l, 'c) Env \<Rightarrow> RustResult \<Rightarrow> DirectoryDiagnosticResult" where
  "formatRustResult env result =
     (case skippedReason result of
        Some reason \<Rightarrow> makeSkippedResult (''Rust diagnostics skipped: '' @ reason)
      | None \<Rightarrow>
          formatDiagnosticResult sameValueZero (toString env) (toString env)
            (\<lambda>diag. if truthy (code diag) then '' ['' @ toString env (code diag) @ '']'' else [])
            result Rust ''Cargo check'')"

definition formatPythonResult :: "PythonResult \<Rightarrow> DirectoryDiagnosticResult" where
  "formatPythonResult result =
     (case skippedReason result of
        Some reason \<Rightarrow> makeSkippedResult (''Python diagnostics skipped: '' @ reason)
      | None \<Rightarrow>
          let toolName = (if tool result = Mypy then ''Mypy''
                          else if tool result = Pylint then ''Pylint'' else ''Python'')
          in formatDiagnosticResult (=) id showNat codeTagString result Python toolName)"

definition formatLspResult :: "('l, 'c) Env \<Rightarrow> LspAggregationResult \<Rightarrow> DirectoryDiagnosticResult" where
  "formatLspResult env result =
     (let (text, summ) =
        (if length (diagnostics result) = 0
         then (''Checked '' @ showNat (filesChecked result) @ '' files. No diagnostics found!'',
               ''LSP check passed: 0 errors, 0 warnings ('' @ showNat (filesChecked result) @
               '' files)'')
         else
           let byFile = foldl (\<lambda>m item. addToFile (=) (filePath item) item m) []
                          (diagnostics result);
               fileOutputs =
                 map (\<lambda>(f, items).
                        f @ '':'' @ [CHR 0x0A] @ formatDiagnostics env (map diagnostic items) f)
                     byFile
           in (joinWith [CHR 0x0A, CHR 0x0A] fileOutputs,
               ''LSP check '' @ (if success result then ''passed'' else ''failed'') @ '': '' @
               showNat (errorCount result) @ '' errors, '' @
               showNat (warningCount result) @ '' warnings ('' @
               showNat (filesChecked result) @ '' files)''))
      in \<lparr>success = success result, diagnostics = text, errorCount = errorCount result,
          warningCount = warningCount result, strategy = Ran Lsp, summary = summ\<rparr>)"

text \<open>How a call ends: with a value, with an exception, or not at all.\<close>

datatype 'a outcome = Returns 'a | Throws error | Diverges

definition ofOption :: "'a option \<Rightarrow> 'a outcome" where
  "ofOption r = (case r of None \<Rightarrow> Diverges | Some x \<Rightarrow> Returns x)"

definition ofSum :: "error + 'a \<Rightarrow> 'a outcome" where
  "ofSum r = (case r of Inl e \<Rightarrow> Throws e | Inr x \<Rightarrow> Returns x)"

definition mapOutcome :: "('a \<Rightarrow> 'b) \<Rightarrow> 'a outcome \<Rightarrow> 'b outcome" where
  "mapOutcome f r = (case r of Returns x \<Rightarrow> Returns (f x) | Throws e \<Rightarrow> Throws e | Diverges \<Rightarrow> Diverges)"

text \<open>The second \<open>switch\<close> of \<open>runDirectoryDiagnostics\<close>: the runner of a strategy, formatted.\<close>

definition runStrategy ::
  "('l, 'c) Env \<Rightarrow> Strategy \<Rightarrow> string \<Rightarrow> 'l World \<Rightarrow> DirectoryDiagnosticResult outcome \<times> 'l World"
where
  "runStrategy env useStrategy resolvedDirectory w =
     (case useStrategy of
        Tsc \<Rightarrow> (let (r, w') = runTscDiagnostics env resolvedDirectory w
                in (mapOutcome formatTscResult (ofOption r), w'))
      | Go \<Rightarrow> (let (r, w') = runGoDiagnostics env resolvedDirectory w
               in (mapOutcome formatGoResult (ofOption r), w'))
      | Rust \<Rightarrow> (let (r, w') = runRustDiagnostics env resolvedDirectory w
                 in (mapOutcome (formatRustResult env) (ofSum r), w'))
      | Python \<Rightarrow> (let (r, w') = runPythonDiagnostics env resolvedDirectory w
                   in (mapOutcome formatPythonResult (ofOption r), w'))
      | Lsp \<Rightarrow> (let (r, w') = runLspAggregatedDiagnostics env resolvedDirectory None w
                in (mapOutcome (formatLspResult env) (ofOption r), w')))"

definition runDirectoryDiagnostics ::
  "('l, 'c) Env \<Rightarrow> string \<Rightarrow> DiagnosticsStrategy \<Rightarrow> 'l World
   \<Rightarrow> DirectoryDiagnosticResult outcome \<times> 'l World" where
  "runDirectoryDiagnostics env directory strat w =
     (if \<not> existsSync env directory
      then (Returns (makeSkippedResult
              (''Diagnostics skipped: directory does not exist: '' @ directory)), w)
      else case statSync env directory of
        None \<Rightarrow> (Throws StatError, w)
      | Some stat \<Rightarrow>
          if \<not> isDirectory stat
          then (Returns (makeSkippedResult
                  (''Diagnostics skipped: path is not a directory: '' @ directory)), w)
          else case realpathSync env directory of
            None \<Rightarrow> (Returns (makeSkippedResult
                        (''Diagnostics skipped: cannot resolve directory path: '' @ directory)), w)
          | Some resolvedDirectory \<Rightarrow>
              (case strat of
                 Auto \<Rightarrow>
                   (let (projectType, w') = detectProjectType env resolvedDirectory w;
                        useStrategy = (case projectType of
                                         PTypescript \<Rightarrow> Tsc | PGo \<Rightarrow> Go | PRust \<Rightarrow> Rust
                                       | PPython \<Rightarrow> Python | PUnknown \<Rightarrow> Lsp)
                    in runStrategy env useStrategy resolvedDirectory w')
               | Named useStrategy \<Rightarrow> runStrategy env useStrategy resolvedDirectory w))"

section \<open>Notions used in the statements\<close>

text \<open>A pattern that consumes at least one character in every match.\<close>

fun nonnull :: "re \<Rightarrow> bool" where
  "nonnull (Atom a) = True"
| "nonnull (Seq e1 e2) = (nonnull e1 \<or> nonnull e2)"
| "nonnull (Alt e1 e2) = (nonnull e1 \<and> nonnull e2)"
| "nonnull (Grp n e) = nonnull e"
| "nonnull e = False"

text \<open>The numbers of the capturing groups of a pattern.\<close>

fun groups :: "re \<Rightarrow> nat set" where
  "groups (Grp n e) = insert n (groups e)"
| "groups (Seq e1 e2) = groups e1 \<union> groups e2"
| "groups (Alt e1 e2) = groups e1 \<union> groups e2"
| "groups (Opt e) = groups e"
| "groups e = {}"

text \<open>The calls of a trace that enter the detector or a runner.\<close>

fun isCall :: "event \<Rightarrow> bool" where
  "isCall (Exec cmd args cwd) = False"
| "isCall e = True"

definition calls :: "'l World \<Rightarrow> event list" where
  "calls w = filter isCall (trace w)"

text \<open>The external processes of a trace.\<close>

definition processes :: "'l World \<Rightarrow> event list" where
  "processes w = filter (\<lambda>e. \<not> isCall e) (trace w)"

text \<open>
  An example environment: a file system with a TypeScript project that also holds a
  \<open>go.mod\<close>, a Go, a Rust and a Python project, an empty directory, a plain file and a
  directory whose path does not resolve; tools that exit non-zero without output, except
  pylint, which reports one warning; no mypy on the search path; and a language server
  that publishes one error and one hint for every file. The JSON decoder knows the line
  \<open>null\<close> and, under short names, four lines of cargo: the end of the build, a note, an
  error with two spans of which the second is primary, and a warning without a primary
  span.
\<close>

definition demoJson :: "string \<Rightarrow> json option" where
  "demoJson s =
     (if s = ''null'' then Some JNull
      else if s = ''build-finished'' then Some (JObj [(''reason'', JStr ''build-finished'')])
      else if s = ''note''
      then Some (JObj [(''reason'', JStr ''compiler-message''),
                       (''message'', JObj [(''level'', JStr ''note'')])])
      else if s = ''two-spans''
      then Some (JObj [(''reason'', JStr ''compiler-message''),
             (''message'', JObj [(''message'', JStr ''mismatched types''),
                (''code'', JObj [(''code'', JStr ''E0308'')]),
                (''level'', JStr ''error''),
                (''spans'', JArr [
                   JObj [(''file_name'', JStr ''src/other.rs''), (''line_start'', JNum 1),
                         (''column_start'', JNum 1), (''is_primary'', JBool False)],
                   JObj [(''file_name'', JStr ''src/main.rs''), (''line_start'', JNum 10),
                         (''column_start'', JNum 5), (''is_primary'', JBool True)]])])])
      else if s = ''no-primary''
      then Some (JObj [(''reason'', JStr ''compiler-message''),
             (''message'', JObj [(''message'', JStr ''unused''),
                (''level'', JStr ''warning''),
                (''spans'', JArr [
                   JObj [(''file_name'', JStr ''src/lib.rs''), (''line_start'', JNum 3),
                         (''column_start'', JNum 9), (''is_primary'', JBool False)]])])])
      else None)"

definition silentFailure :: ExecError where
  "silentFailure = \<lparr>errorCode = None, stdout = [], stderr = []\<rparr>"

definition demoExec :: "string \<Rightarrow> string list \<Rightarrow> string option \<Rightarrow> ExecOutcome" where
  "demoExec cmd args cwd =
     (if cmd = ''which'' \<and> args = [''pylint''] then Completed []
      else if cmd = ''pylint''
      then Thrown \<lparr>errorCode = None, stdout = ''a.py:1:0: W0611: x'', stderr = []\<rparr>
      else Thrown silentFailure)"

definition demoEnv :: "(nat, unit) Env" where
  "demoEnv =
     \<lparr>existsSync = (\<lambda>p. p \<in> set [''/ts'', ''/ts/tsconfig.json'', ''/ts/go.mod'', ''/go'',
                                     ''/go/go.mod'', ''/rs'', ''/rs/Cargo.toml'', ''/py'',
                                     ''/py/setup.py'', ''/empty'', ''/file.txt'', ''/dangling'']),
      statSync = (\<lambda>p. if p = ''/file.txt'' \<or> p = ''/empty/a.ts''
                       then Some \<lparr>isDirectory = False, isFile = True\<rparr>
                       else Some \<lparr>isDirectory = True, isFile = False\<rparr>),
      realpathSync = (\<lambda>p. if p = ''/dangling'' then None else Some p),
      readdirSync = (\<lambda>p. if p = ''/empty'' then Some [''a.ts''] else None),
      join = (\<lambda>d n. d @ ''/'' @ n),
      extname = (\<lambda>p. if p = ''/empty/a.ts'' then ''.ts'' else []),
      execFileSync = demoExec,
      platform = ''linux'',
      jsonParse = demoJson,
      toString = (\<lambda>v. ''value''),
      getClientForFile = (\<lambda>l f. (Some (Some ()), l)),
      openDocument = (\<lambda>l c f. (Some (), Suc l)),
      getDiagnostics = (\<lambda>l c f.
        (Some [\<lparr>lspLine = 1, lspColumn = 1, lspMessage = ''e'', lspSeverity = 1, lspCode = None\<rparr>,
               \<lparr>lspLine = 2, lspColumn = 1, lspMessage = ''h'', lspSeverity = 4, lspCode = None\<rparr>], l)),
      formatDiagnostics = (\<lambda>ds f. [])\<rparr>"

definition demoWorld :: "nat World" where
  "demoWorld = \<lparr>trace = [], cachedExtensions = None, lspState = 0\<rparr>"

text \<open>
  The character classes of a safe command name, as the specification words them.
\<close>

definition asciiLetter :: "char \<Rightarrow> bool" where
  "asciiLetter c \<longleftrightarrow> inRange CHR ''a'' CHR ''z'' c \<or> inRange CHR ''A'' CHR ''Z'' c"

definition safeChar :: "char \<Rightarrow> bool" where
  "safeChar c \<longleftrightarrow>
     asciiLetter c \<or> inRange CHR ''0'' CHR ''9'' c \<or> c = CHR ''.'' \<or> c = CHR ''_'' \<or> c = CHR ''-''"

text \<open>
  A command is on the search path when \<open>which\<close> (\<open>where\<close> on Windows) finds it;
  \<open>probe\<close> is that process as an event of the trace.
\<close>

definition onPath :: "('l, 'c) Env \<Rightarrow> string \<Rightarrow> bool" where
  "onPath env c =
     (case execFileSync env (if platform env = ''win32'' then ''where'' else ''which'') [c] None of
        Completed out \<Rightarrow> True | Thrown err \<Rightarrow> False)"

definition probe :: "('l, 'c) Env \<Rightarrow> string \<Rightarrow> event" where
  "probe env c = Exec (if platform env = ''win32'' then ''where'' else ''which'') [c] None"

text \<open>
  The files the aggregator's loop processes to the end, each with the diagnostics read
  back for it, in order; the state of the sessions goes from file to file as in the loop.
  \<open>withFile\<close> pairs every diagnostic of a file with the file.
\<close>

fun processed ::
  "('l, 'c) Env \<Rightarrow> string list \<Rightarrow> 'l World \<Rightarrow> (string \<times> Diagnostic list) list" where
  "processed env [] w = []"
| "processed env (f # fs) w =
     (case lspFile env f w of
        (None, w') \<Rightarrow> processed env fs w'
      | (Some ds, w') \<Rightarrow> (f, ds) # processed env fs w')"

definition withFile :: "string \<times> Diagnostic list \<Rightarrow> LspDiagnosticWithFile list" where
  "withFile fd = map (\<lambda>d. \<lparr>filePath = fst fd, diagnostic = d\<rparr>) (snd fd)"

text \<open>
  The two counts of a result partition its diagnostics by severity.
\<close>

definition countsPartition :: "((('s, 'n, 'y) BaseDiagnostic_scheme), 'z) BaseResult_scheme \<Rightarrow> bool" where
  "countsPartition r \<longleftrightarrow>
     errorCount r + warningCount r = length (diagnostics r) \<and>
     errorCount r = countSeverity ''error'' (diagnostics r) \<and>
     warningCount r = countSeverity ''warning'' (diagnostics r)"

text \<open>
  A span is marked primary when its \<open>is_primary\<close> is truthy. \<open>lineDiagnostic\<close> is the
  diagnostic a line of cargo output contributes, if any.
\<close>

definition isPrimary :: "json \<Rightarrow> bool" where
  "isPrimary s = (case getProp (Some s) ''is_primary'' of Inl e \<Rightarrow> False | Inr v \<Rightarrow> truthy v)"

definition lineDiagnostic :: "(string \<Rightarrow> json option) \<Rightarrow> string \<Rightarrow> RustDiagnostic option" where
  "lineDiagnostic P l = (case rustLine P l of Inr (Some d) \<Rightarrow> Some d | _ \<Rightarrow> None)"

text \<open>
  A result succeeds exactly when it counts no error, and it succeeds when all its
  diagnostics are warnings.
\<close>

definition successIffNoErrors :: "((('s, 'n, 'y) BaseDiagnostic_scheme), 'z) BaseResult_scheme \<Rightarrow> bool" where
  "successIffNoErrors r \<longleftrightarrow>
     (success r \<longleftrightarrow> errorCount r = 0) \<and>
     ((\<forall>d \<in> set (diagnostics r). severity d = ''warning'') \<longrightarrow> success r)"

text \<open>
  What a result of go vet has in its place: no error is ever counted and every diagnostic
  is a warning, yet the result succeeds only when there is no diagnostic, that is when
  \<open>warningCount\<close> is 0. So a result of go vet with a diagnostic is not
  \<open>successIffNoErrors\<close>.
\<close>

definition goSuccess :: "GoResult \<Rightarrow> bool" where
  "goSuccess r \<longleftrightarrow>
     errorCount r = 0 \<and> warningCount r = length (diagnostics r) \<and>
     (\<forall>d \<in> set (diagnostics r). severity d = ''warning'') \<and>
     (success r \<longleftrightarrow> diagnostics r = []) \<and> (success r \<longleftrightarrow> warningCount r = 0) \<and>
     (diagnostics r \<noteq> [] \<longrightarrow> \<not> successIffNoErrors r)"

text \<open>
  Two variants of the example environment: every process exits non-zero without output,
  and every process exits zero. Then the results of some example inputs.
\<close>

definition silentEnv :: "(nat, unit) Env" where
  "silentEnv = demoEnv\<lparr>execFileSync := (\<lambda>cmd args cwd. Thrown silentFailure)\<rparr>"

definition cleanEnv :: "(nat, unit) Env" where
  "cleanEnv = demoEnv\<lparr>execFileSync := (\<lambda>cmd args cwd. Completed [])\<rparr>"

definition twoSpansDiagnostic :: RustDiagnostic where
  "twoSpansDiagnostic =
     \<lparr>file' = Some (JStr ''src/main.rs''), line = Some (JNum 10), column = Some (JNum 5),
      message = Some (JStr ''mismatched types''), severity = ''error'',
      code = Some (JStr ''E0308'')\<rparr>"

definition tscWarningResult :: TscResult where
  "tscWarningResult =
     \<lparr>success = True,
      diagnostics = [\<lparr>file' = ''a.ts'', line = 1, column = 2, message = ''x'',
                     severity = ''warning'', code = ''TS1''\<rparr>],
      errorCount = 0, warningCount = 1, skipped = None\<rparr>"

definition twoSpansResult :: RustResult where
  "twoSpansResult =
     \<lparr>success = False, diagnostics = [twoSpansDiagnostic], errorCount = 1,
      warningCount = 0, skipped = None\<rparr>"

text \<open>
  A third variant: every process exits non-zero and reports one finding of go vet on its
  standard error. Then the result of the go vet parser on that line.
\<close>

definition goFindingEnv :: "(nat, unit) Env" where
  "goFindingEnv = demoEnv\<lparr>execFileSync := (\<lambda>cmd args cwd.
     Thrown \<lparr>errorCode = None, stdout = [], stderr = ''a.go:1:2: x''\<rparr>)\<rparr>"

definition goWarningResult :: GoResult where
  "goWarningResult =
     \<lparr>success = False,
      diagnostics = [\<lparr>file' = ''a.go'', line = 1, column = 2, message = ''x'',
                     severity = ''warning''\<rparr>],
      errorCount = 0, warningCount = 1, skipped = None\<rparr>"

text \<open>
  The groups that take part in every match of a pattern.
\<close>

fun sure :: "re \<Rightarrow> nat set" where
  "sure (Grp n e) = insert n (sure e)"
| "sure (Seq e1 e2) = sure e1 \<union> sure e2"
| "sure (Alt e1 e2) = sure e1 \<inter> sure e2"
| "sure e = {}"

section \<open>Properties of the matcher\<close>

lemma runs_length: "(p', r') \<in> set (runs a p r) \<Longrightarrow> length r' \<le> length r"
  by (induction r arbitrary: p) (force split: if_splits)+

lemma ms_length: "(p', r', cs') \<in> set (ms ml e (p, r, cs)) \<Longrightarrow> length r' \<le> length r"
proof (induction e arbitrary: p r cs p' r' cs')
  case (Seq e1 e2)
  then show ?case by fastforce
qed (auto split: list.splits if_splits option.splits dest: runs_length)

lemma ms_nonnull:
  "nonnull e \<Longrightarrow> (p', r', cs') \<in> set (ms ml e (p, r, cs)) \<Longrightarrow> length r' < length r"
proof (induction e arbitrary: p r cs p' r' cs')
  case (Seq e1 e2)
  from Seq.prems(2) obtain p1 r1 cs1 where
    m1: "(p1, r1, cs1) \<in> set (ms ml e1 (p, r, cs))" and
    m2: "(p', r', cs') \<in> set (ms ml e2 (p1, r1, cs1))"
    by auto
  from m1 have l1: "length r1 \<le> length r" by (rule ms_length)
  from m2 have l2: "length r' \<le> length r1" by (rule ms_length)
  from Seq.prems(1) have "nonnull e1 \<or> nonnull e2" by simp
  then show ?case
  proof
    assume "nonnull e1"
    from Seq.IH(1)[OF this m1] l2 show ?thesis by simp
  next
    assume "nonnull e2"
    from Seq.IH(2)[OF this m2] l1 show ?thesis by simp
  qed
qed (auto split: list.splits if_splits)

lemma search_shorter:
  "nonnull e \<Longrightarrow> search ml e p r = Some (p', r', cs) \<Longrightarrow> length r' < length r"
proof (induction r arbitrary: p)
  case Nil
  then show ?case
    by (auto split: list.splits dest!: ms_nonnull[where ml=ml and e=e and p=p and r="[]" and cs="[]"])
next
  case (Cons c r)
  show ?case
  proof (cases "ms ml e (p, c # r, [])")
    case Nil
    with Cons.prems have "search ml e (Some c) r = Some (p', r', cs)" by simp
    from Cons.IH[OF Cons.prems(1) this] show ?thesis by simp
  next
    case (Cons s ss)
    with Cons.prems have "(p', r', cs) \<in> set (ms ml e (p, c # r, []))" by simp
    from ms_nonnull[OF Cons.prems(1) this] show ?thesis .
  qed
qed

lemma search_from_ms:
  "search ml e p r = Some (p', r', cs) \<Longrightarrow>
     \<exists>p0 r0. (p', r', cs) \<in> set (ms ml e (p0, r0, []))"
proof (induction r arbitrary: p)
  case Nil
  then show ?case by (auto split: list.splits) (metis list.set_intros(1))
next
  case (Cons c r)
  show ?case
  proof (cases "ms ml e (p, c # r, [])")
    case Nil
    with Cons.prems have "search ml e (Some c) r = Some (p', r', cs)" by simp
    from Cons.IH[OF this] show ?thesis .
  next
    case (Cons s ss)
    with Cons.prems have "(p', r', cs) \<in> set (ms ml e (p, c # r, []))" by simp
    then show ?thesis by blast
  qed
qed

lemma execAll_None: "search True e p r = None \<Longrightarrow> execAll e p r = Some []"
  by (subst execAll.simps) simp

lemma execAll_Some:
  "search True e p r = Some (p', r', cs) \<Longrightarrow>
   execAll e p r = Option.bind (execAll e p' r') (\<lambda>found. Some (cs # found))"
  by (subst execAll.simps) simp

text \<open>
  The loop over the matches of a pattern that cannot match the empty string returns for
  every input, and what holds of every match holds of every element it returns.
\<close>

lemma execAll_total:
  assumes nn: "nonnull e"
    and Q: "\<And>p0 r0 p' r' cs. (p', r', cs) \<in> set (ms True e (p0, r0, [])) \<Longrightarrow> Q cs"
  shows "\<exists>found. execAll e p r = Some found \<and> list_all Q found"
proof (induction "length r" arbitrary: p r rule: less_induct)
  case less
  show ?case
  proof (cases "search True e p r")
    case None
    then show ?thesis by (simp add: execAll_None)
  next
    case (Some s)
    obtain p' r' cs where s: "s = (p', r', cs)" by (cases s)
    from Some s have sr: "search True e p r = Some (p', r', cs)" by simp
    from search_shorter[OF nn sr] have "length r' < length r" .
    from less[OF this] obtain found where
      f: "execAll e p' r' = Some found" "list_all Q found" by blast
    from search_from_ms[OF sr] Q have "Q cs" by blast
    with f show ?thesis by (simp add: execAll_Some[OF sr])
  qed
qed

lemma execAll_returns: "nonnull e \<Longrightarrow> \<exists>found. execAll e p r = Some found"
  using execAll_total[where Q = "\<lambda>cs. True"] by blast

lemma ms_frame:
  "n \<notin> groups e \<Longrightarrow> (p', r', cs') \<in> set (ms ml e (p, r, cs)) \<Longrightarrow> map_of cs' n = map_of cs n"
proof (induction e arbitrary: p r cs p' r' cs')
  case (Seq e1 e2)
  from Seq.prems(2) obtain p1 r1 cs1 where
    m1: "(p1, r1, cs1) \<in> set (ms ml e1 (p, r, cs))" and
    m2: "(p', r', cs') \<in> set (ms ml e2 (p1, r1, cs1))"
    by auto
  from Seq.prems(1) have "n \<notin> groups e1" "n \<notin> groups e2" by simp_all
  with Seq.IH(1)[OF _ m1] Seq.IH(2)[OF _ m2] show ?case by simp
qed (auto split: list.splits if_splits option.splits)

lemma ms_seqs_append:
  "s' \<in> set (ms ml (seqs (xs @ ys)) s) \<longleftrightarrow>
     (\<exists>m \<in> set (ms ml (seqs xs) s). s' \<in> set (ms ml (seqs ys) m))"
  by (induction xs arbitrary: s) auto

lemma ms_seqs_ConsD:
  "s' \<in> set (ms ml (seqs (x # ys)) s) \<Longrightarrow> \<exists>m \<in> set (ms ml x s). s' \<in> set (ms ml (seqs ys) m)"
  by auto

lemma ms_word:
  "(p', r', cs') \<in> set (ms ml (word w) (p, r, cs)) \<Longrightarrow> r = w @ r' \<and> cs' = cs"
  unfolding word_def
  by (induction w arbitrary: p r) (auto split: list.splits if_splits)

lemma ms_Grp_word:
  "(p', r', cs') \<in> set (ms ml (Grp n (word w)) (p, r, cs)) \<Longrightarrow> map_of cs' n = Some w"
  by (auto dest!: ms_word)

lemma ms_Grp_Alt:
  "set (ms ml (Grp n (Alt e1 e2)) s) = set (ms ml (Grp n e1) s) \<union> set (ms ml (Grp n e2) s)"
  by (cases s) auto

lemma ms_keeps:
  "(p', r', cs') \<in> set (ms ml e (p, r, cs)) \<Longrightarrow> map_of cs n \<noteq> None \<Longrightarrow> map_of cs' n \<noteq> None"
proof (induction e arbitrary: p r cs p' r' cs')
  case (Seq e1 e2)
  from Seq.prems(1) obtain p1 r1 cs1 where
    m1: "(p1, r1, cs1) \<in> set (ms ml e1 (p, r, cs))" and
    m2: "(p', r', cs') \<in> set (ms ml e2 (p1, r1, cs1))"
    by auto
  from Seq.IH(2)[OF m2 Seq.IH(1)[OF m1 Seq.prems(2)]] show ?case .
qed (auto split: list.splits if_splits option.splits)

lemma ms_sure:
  "n \<in> sure e \<Longrightarrow> (p', r', cs') \<in> set (ms ml e (p, r, cs)) \<Longrightarrow> map_of cs' n \<noteq> None"
proof (induction e arbitrary: p r cs p' r' cs')
  case (Seq e1 e2)
  from Seq.prems(2) obtain p1 r1 cs1 where
    m1: "(p1, r1, cs1) \<in> set (ms ml e1 (p, r, cs))" and
    m2: "(p', r', cs') \<in> set (ms ml e2 (p1, r1, cs1))"
    by auto
  from Seq.prems(1) have "n \<in> sure e1 \<or> n \<in> sure e2" by simp
  then show ?case
  proof
    assume "n \<in> sure e1"
    from ms_keeps[OF m2 Seq.IH(1)[OF this m1]] show ?thesis .
  next
    assume "n \<in> sure e2"
    from Seq.IH(2)[OF this m2] show ?thesis .
  qed
next
  case (Alt e1 e2)
  then show ?case by auto
next
  case (Grp k e)
  then show ?case by (auto split: if_splits)
qed simp_all

lemma sure_regexes:
  "{1, 2, 3, 4, 5, 6} \<subseteq> sure tscRegex"
  "{1, 2, 3, 4} \<subseteq> sure goRegex"
  "{1, 2, 3, 4, 5} \<subseteq> sure mypyRegex"
  "{1, 2, 3, 4, 5} \<subseteq> sure pylintRegex"
  by (simp_all add: tscRegex_def goRegex_def mypyRegex_def pylintRegex_def Plus_def)

lemma nonnull_regexes:
  "nonnull tscRegex" "nonnull goRegex" "nonnull mypyRegex" "nonnull pylintRegex"
  by (simp_all add: tscRegex_def goRegex_def mypyRegex_def pylintRegex_def Plus_def)

text \<open>
  Every group of \<open>sure e\<close> is defined in every match; for the four parser patterns these
  are the groups 1 to 6 (tsc), 1 to 4 (go vet) and 1 to 5 (mypy, pylint), so \<open>grp\<close> reads
  an undefined group only for group 6 of mypy.
\<close>

lemma groups_take_part:
  assumes "nonnull e"
  shows "\<exists>found. execAll e p r = Some found \<and>
           list_all (\<lambda>m. \<forall>n \<in> sure e. map_of m n \<noteq> None) found"
  by (rule execAll_total[OF assms]) (blast dest: ms_sure)

section \<open>The examples, evaluated\<close>

lemma sublist_mid: "sublist b (a @ b @ c)"
  by (metis sublist_appendI)

lemma parseInt_simps: "parseInt ''0'' = 0" "parseInt ''1'' = 1" "parseInt ''2'' = 2"
  by (simp_all add: parseInt_def)

lemma go_search_1:
  "search True goRegex None ''a.go:1:2: x'' =
     Some (Some CHR ''x'', [], [(4, ''x''), (3, ''2''), (2, ''1''), (1, ''a.go'')])"
  by code_simp

lemma go_search_2: "search True goRegex (Some CHR ''x'') [] = None"
  by code_simp

lemma tsc_search_1:
  "search True tscRegex None ''a.ts(1,2): warning TS1: x'' =
     Some (Some CHR ''x'', [],
       [(6, ''x''), (5, ''TS1''), (4, ''warning''), (3, ''2''), (2, ''1''), (1, ''a.ts'')])"
  by code_simp

lemma tsc_search_2: "search True tscRegex (Some CHR ''x'') [] = None"
  by code_simp

lemma pylint_search_1:
  "search True pylintRegex None ''a.py:1:0: W0611: x'' =
     Some (Some CHR ''x'', [],
       [(5, ''x''), (4, ''W0611''), (3, ''0''), (2, ''1''), (1, ''a.py'')])"
  by code_simp

lemma pylint_search_2: "search True pylintRegex (Some CHR ''x'') [] = None"
  by code_simp

lemma search_empty:
  "search True goRegex None [] = None"
  by code_simp

lemma go_example:
  "parseGoOutput ''a.go:1:2: x'' =
     Some \<lparr>success = False,
       diagnostics = [\<lparr>file' = ''a.go'', line = 1, column = 2, message = ''x'',
                      severity = ''warning''\<rparr>],
       errorCount = 0, warningCount = 1, skipped = None\<rparr>"
  by (simp add: parseGoOutput_def execAll_Some[OF go_search_1] execAll_None[OF go_search_2]
      goDiagnostic_def grp_def parseInt_simps)

lemma tsc_example:
  "parseTscOutput ''a.ts(1,2): warning TS1: x'' =
     Some \<lparr>success = True,
       diagnostics = [\<lparr>file' = ''a.ts'', line = 1, column = 2, message = ''x'',
                      severity = ''warning'', code = ''TS1''\<rparr>],
       errorCount = 0, warningCount = 1, skipped = None\<rparr>"
  by (simp add: parseTscOutput_def execAll_Some[OF tsc_search_1] execAll_None[OF tsc_search_2]
      tscDiagnostic_def grp_def parseInt_simps countSeverity_def)

lemma pylint_example:
  "parsePylintOutput ''a.py:1:0: W0611: x'' =
     Some \<lparr>success = True,
       diagnostics = [\<lparr>file' = ''a.py'', line = 1, column = 0, message = ''x'',
                      severity = ''warning'', code = ''W0611''\<rparr>],
       errorCount = 0, warningCount = 1, skipped = None, tool = Pylint\<rparr>"
  by (simp add: parsePylintOutput_def execAll_Some[OF pylint_search_1]
      execAll_None[OF pylint_search_2] pylintDiagnostic_def grp_def parseInt_simps
      countSeverity_def startsWith_def)

lemma demoEnv_fields:
  "existsSync demoEnv = (\<lambda>p. p \<in> set [''/ts'', ''/ts/tsconfig.json'', ''/ts/go.mod'', ''/go'',
                                     ''/go/go.mod'', ''/rs'', ''/rs/Cargo.toml'', ''/py'',
                                     ''/py/setup.py'', ''/empty'', ''/file.txt'', ''/dangling''])"
  "statSync demoEnv = (\<lambda>p. if p = ''/file.txt'' \<or> p = ''/empty/a.ts''
                       then Some \<lparr>isDirectory = False, isFile = True\<rparr>
                       else Some \<lparr>isDirectory = True, isFile = False\<rparr>)"
  "realpathSync demoEnv = (\<lambda>p. if p = ''/dangling'' then None else Some p)"
  "readdirSync demoEnv = (\<lambda>p. if p = ''/empty'' then Some [''a.ts''] else None)"
  "join demoEnv = (\<lambda>d n. d @ ''/'' @ n)"
  "extname demoEnv = (\<lambda>p. if p = ''/empty/a.ts'' then ''.ts'' else [])"
  "execFileSync demoEnv = demoExec"
  "platform demoEnv = ''linux''"
  "jsonParse demoEnv = demoJson"
  "getClientForFile demoEnv = (\<lambda>l f. (Some (Some ()), l))"
  "openDocument demoEnv = (\<lambda>l c f. (Some (), Suc l))"
  "getDiagnostics demoEnv = (\<lambda>l c f.
        (Some [\<lparr>lspLine = 1, lspColumn = 1, lspMessage = ''e'', lspSeverity = 1, lspCode = None\<rparr>,
               \<lparr>lspLine = 2, lspColumn = 1, lspMessage = ''h'', lspSeverity = 4, lspCode = None\<rparr>], l))"
  by (simp_all add: demoEnv_def)

lemma demo_exec:
  "demoExec ''tsc'' a c = Thrown silentFailure"
  "demoExec ''go'' a c = Thrown silentFailure"
  "demoExec ''cargo'' a c = Thrown silentFailure"
  "demoExec ''mypy'' a c = Thrown silentFailure"
  "demoExec ''which'' [''mypy''] c = Thrown silentFailure"
  "demoExec ''which'' [''pylint''] c = Completed []"
  "demoExec ''pylint'' a c =
     Thrown \<lparr>errorCode = None, stdout = ''a.py:1:0: W0611: x'', stderr = []\<rparr>"
  by (simp_all add: demoExec_def)

lemma silentEnv_fields:
  "execFileSync silentEnv = (\<lambda>cmd args cwd. Thrown silentFailure)"
  "existsSync silentEnv = existsSync demoEnv"
  "join silentEnv = join demoEnv"
  "platform silentEnv = ''linux''"
  by (simp_all add: silentEnv_def demoEnv_fields)

lemma cleanEnv_fields:
  "execFileSync cleanEnv = (\<lambda>cmd args cwd. Completed [])"
  "existsSync cleanEnv = existsSync demoEnv"
  "join cleanEnv = join demoEnv"
  "platform cleanEnv = ''linux''"
  by (simp_all add: cleanEnv_def demoEnv_fields)

lemma demo_walk:
  "findFiles demoEnv ''/empty'' [''.ts''] [''node_modules'', ''dist'', ''build'', ''.git''] =
     Some [''/empty/a.ts'']"
  by (simp add: findFiles_def demoEnv_fields walk.simps Let_def)

lemma rust_two_spans: "rustLine demoJson ''two-spans'' = Inr (Some twoSpansDiagnostic)"
  by (simp add: rustLine_def trim_def isWhiteSpace_def demoJson_def bindE_def
      rustDiagnostic_def twoSpansDiagnostic_def)

lemma rust_other_lines:
  "rustLine demoJson ''garbage'' = Inr None"
  "rustLine demoJson ''build-finished'' = Inr None"
  "rustLine demoJson ''note'' = Inr None"
  "rustLine demoJson ''no-primary'' = Inr None"
  by (simp_all add: rustLine_def trim_def isWhiteSpace_def demoJson_def bindE_def)

lemma parseRust_two_spans:
  "parseRustOutput demoJson ''two-spans'' =
     Inr \<lparr>success = False, diagnostics = [twoSpansDiagnostic], errorCount = 1,
          warningCount = 0, skipped = None\<rparr>"
  by (simp add: parseRustOutput_def rust_two_spans bindE_def countSeverity_def
      twoSpansDiagnostic_def)

lemma parseRust_five_lines:
  "parseRustOutput demoJson
     (''garbage'' @ [CHR 0x0A] @ ''build-finished'' @ [CHR 0x0A] @ ''note'' @ [CHR 0x0A] @
      ''no-primary'' @ [CHR 0x0A] @ ''two-spans'') =
     Inr \<lparr>success = False, diagnostics = [twoSpansDiagnostic], errorCount = 1,
          warningCount = 0, skipped = None\<rparr>"
  by (simp add: parseRustOutput_def rust_two_spans rust_other_lines bindE_def countSeverity_def
      twoSpansDiagnostic_def)

lemma parseGo_empty: "parseGoOutput [] = Some cleanResult"
  by (simp add: parseGoOutput_def execAll_None[OF search_empty] cleanResult_def)

lemma parseRust_empty: "parseRustOutput P [] = Inr cleanResult"
  by (simp add: parseRustOutput_def rustLine_def trim_def bindE_def cleanResult_def countSeverity_def)

lemma demo_rust_run:
  "fst (runRustDiagnostics demoEnv ''/rs'' demoWorld) = Inr cleanResult"
  by (simp add: runRustDiagnostics_def demoEnv_fields demo_exec spawn_def silentFailure_def
      orElse_def parseRust_empty)

lemma goFindingEnv_fields:
  "execFileSync goFindingEnv = (\<lambda>cmd args cwd.
     Thrown \<lparr>errorCode = None, stdout = [], stderr = ''a.go:1:2: x''\<rparr>)"
  "existsSync goFindingEnv = existsSync demoEnv"
  "join goFindingEnv = join demoEnv"
  by (simp_all add: goFindingEnv_def demoEnv_fields)

lemma demo_go_run:
  "fst (runGoDiagnostics goFindingEnv ''/go'' demoWorld) = Some goWarningResult"
  by (simp add: runGoDiagnostics_def goFindingEnv_fields demoEnv_fields spawn_def orElse_def
      go_example goWarningResult_def)

section \<open>The parsers return, and their counts partition the diagnostics\<close>

lemma tscRegex_split:
  "tscRegex = seqs ([Bol,
     Grp 1 (Plus True Dot), Atom (Lit CHR ''(''),
     Grp 2 (Plus True digit), Atom (Lit CHR '',''),
     Grp 3 (Plus True digit), Atom (Lit CHR '')''), Atom (Lit CHR '':''),
     Plus True space] @ [Grp 4 (Alt (word ''error'') (word ''warning'')),
     Plus True space, Grp 5 (Seq (word ''TS'') (Plus True digit)), Atom (Lit CHR '':''),
     Plus True space, Grp 6 (Plus True Dot), Eol])"
  by (simp add: tscRegex_def)

text \<open>
  Group 4 of a match of the tsc pattern is \<open>error\<close> or \<open>warning\<close>.
\<close>

lemma tsc_severity:
  assumes "(p', r', cs) \<in> set (ms True tscRegex (p0, r0, []))"
  shows "grp cs 4 = ''error'' \<or> grp cs 4 = ''warning''"
proof -
  let ?post = "seqs [Plus True space, Grp 5 (Seq (word ''TS'') (Plus True digit)),
     Atom (Lit CHR '':''), Plus True space, Grp 6 (Plus True Dot), Eol]"
  from assms obtain m where
    m: "(p', r', cs) \<in> set (ms True (seqs [Grp 4 (Alt (word ''error'') (word ''warning'')),
     Plus True space, Grp 5 (Seq (word ''TS'') (Plus True digit)), Atom (Lit CHR '':''),
     Plus True space, Grp 6 (Plus True Dot), Eol]) m)"
    unfolding tscRegex_split ms_seqs_append by blast
  obtain pm rm cm where mm: "m = (pm, rm, cm)" by (cases m)
  from ms_seqs_ConsD[OF m] obtain m4 where
    g0: "m4 \<in> set (ms True (Grp 4 (Alt (word ''error'') (word ''warning''))) m)" and
    rest0: "(p', r', cs) \<in> set (ms True ?post m4)"
    by blast
  obtain p4 r4 c4 where m4: "m4 = (p4, r4, c4)" by (cases m4)
  note g = g0[unfolded m4] and rest = rest0[unfolded m4]
  from g have "(p4, r4, c4) \<in> set (ms True (Grp 4 (word ''error'')) (pm, rm, cm)) \<or>
      (p4, r4, c4) \<in> set (ms True (Grp 4 (word ''warning'')) (pm, rm, cm))"
    by (simp only: ms_Grp_Alt Un_iff mm)
  then have "map_of c4 4 = Some ''error'' \<or> map_of c4 4 = Some ''warning''"
    by (blast dest: ms_Grp_word)
  moreover have "4 \<notin> groups ?post" by (simp add: Plus_def word_def)
  from ms_frame[OF this rest] have "map_of cs 4 = map_of c4 4" .
  ultimately show ?thesis by (auto simp: grp_def)
qed

lemma countSeverity_two:
  assumes "list_all (\<lambda>d. severity d = ''error'' \<or> severity d = ''warning'') ds"
  shows "countSeverity ''error'' ds + countSeverity ''warning'' ds = length ds"
  using assms by (induction ds) (auto simp: countSeverity_def)

lemma parseTsc_counts:
  "\<exists>r. parseTscOutput out = Some r \<and>
       errorCount r + warningCount r = length (diagnostics r) \<and>
       errorCount r = countSeverity ''error'' (diagnostics r) \<and>
       warningCount r = countSeverity ''warning'' (diagnostics r) \<and>
       (success r \<longleftrightarrow> errorCount r = 0)"
proof -
  from execAll_total[OF nonnull_regexes(1), where Q="\<lambda>cs. grp cs 4 = ''error'' \<or> grp cs 4 = ''warning''"]
    tsc_severity
  obtain found where f: "execAll tscRegex None out = Some found"
    "list_all (\<lambda>cs. grp cs 4 = ''error'' \<or> grp cs 4 = ''warning'') found"
    by blast
  from f(2) have "list_all (\<lambda>d. severity d = ''error'' \<or> severity d = ''warning'') (map tscDiagnostic found)"
    by (simp add: list_all_iff tscDiagnostic_def)
  from countSeverity_two[OF this] f(1) show ?thesis
    by (simp add: parseTscOutput_def Let_def)
qed

lemma parseTsc_inv:
  "\<exists>r. parseTscOutput out = Some r \<and> countsPartition r \<and> (success r \<longleftrightarrow> errorCount r = 0)"
  using parseTsc_counts[of out] by (auto simp: countsPartition_def)

lemma countSeverity_warning_only:
  assumes "list_all (\<lambda>d. severity d = ''warning'') ds"
  shows "countSeverity ''error'' ds = 0 \<and> countSeverity ''warning'' ds = length ds"
  using assms by (induction ds) (auto simp: countSeverity_def)

lemma parseGo_inv:
  "\<exists>r. parseGoOutput out = Some r \<and> countsPartition r \<and> errorCount r = 0 \<and>
       (success r \<longleftrightarrow> diagnostics r = [])"
proof -
  from execAll_returns[OF nonnull_regexes(2)] obtain found where
    f: "execAll goRegex None out = Some found" by blast
  have "list_all (\<lambda>d. severity d = ''warning'') (map goDiagnostic found)"
    by (simp add: list_all_iff goDiagnostic_def)
  from countSeverity_warning_only[OF this] f show ?thesis
    by (simp add: parseGoOutput_def Let_def countsPartition_def)
qed

lemma parseMypy_inv:
  "\<exists>r. parseMypyOutput out = Some r \<and> countsPartition r \<and> (success r \<longleftrightarrow> errorCount r = 0)"
proof -
  from execAll_returns[OF nonnull_regexes(3)] obtain found where
    f: "execAll mypyRegex None out = Some found" by blast
  have "list_all (\<lambda>d. severity d = ''error'' \<or> severity d = ''warning'')
      (map mypyDiagnostic (filter (\<lambda>m. grp m 4 \<noteq> ''note'') found))"
    by (simp add: list_all_iff mypyDiagnostic_def)
  from countSeverity_two[OF this] f show ?thesis
    by (simp add: parseMypyOutput_def Let_def countsPartition_def)
qed

lemma parsePylint_inv:
  "\<exists>r. parsePylintOutput out = Some r \<and> countsPartition r \<and> (success r \<longleftrightarrow> errorCount r = 0)"
proof -
  from execAll_returns[OF nonnull_regexes(4)] obtain found where
    f: "execAll pylintRegex None out = Some found" by blast
  have "list_all (\<lambda>d. severity d = ''error'' \<or> severity d = ''warning'')
      (map pylintDiagnostic found)"
    by (simp add: list_all_iff pylintDiagnostic_def Let_def)
  from countSeverity_two[OF this] f show ?thesis
    by (simp add: parsePylintOutput_def Let_def countsPartition_def)
qed

lemma bindE_Inr: "bindE r f = Inr y \<Longrightarrow> \<exists>x. r = Inr x \<and> f x = Inr y"
  by (cases r) (simp_all add: bindE_def)

lemma rustDiagnostic_severity:
  "rustDiagnostic inner level sp = Inr d \<Longrightarrow> severity d = (case level of Some (JStr l) \<Rightarrow> l | _ \<Rightarrow> [])"
  unfolding rustDiagnostic_def
  by (auto dest!: bindE_Inr)

lemma rustLine_Some:
  assumes "rustLine P l = Inr (Some d)"
  shows "\<exists>msg inner level spans sp.
      P (trim l) = Some msg \<and>
      getProp (Some msg) ''reason'' = Inr (Some (JStr ''compiler-message'')) \<and>
      getProp (Some msg) ''message'' = Inr inner \<and> truthy inner \<and>
      getProp inner ''level'' = Inr level \<and>
      (level = Some (JStr ''error'') \<or> level = Some (JStr ''warning'')) \<and>
      getProp inner ''spans'' = Inr spans \<and>
      optFindPrimary spans = Inr sp \<and> truthy sp \<and>
      rustDiagnostic inner level sp = Inr d"
  using assms unfolding rustLine_def Let_def
  by (auto split: if_splits option.splits dest!: bindE_Inr)

lemma rustLine_severity:
  assumes "rustLine P l = Inr (Some d)"
  shows "severity d = ''error'' \<or> severity d = ''warning''"
proof -
  from rustLine_Some[OF assms] obtain inner level sp where
    lv: "level = Some (JStr ''error'') \<or> level = Some (JStr ''warning'')" and
    rd: "rustDiagnostic inner level sp = Inr d"
    by blast
  from rustDiagnostic_severity[OF rd] lv show ?thesis by auto
qed

lemma rustLoop_severity:
  assumes "rustLoop P ls acc = Inr ds"
    and "list_all (\<lambda>d. severity d = ''error'' \<or> severity d = ''warning'') acc"
  shows "list_all (\<lambda>d. severity d = ''error'' \<or> severity d = ''warning'') ds"
  using assms
proof (induction ls arbitrary: acc)
  case Nil
  then show ?case by simp
next
  case (Cons l ls)
  from Cons.prems(1) obtain r where
    r: "rustLine P l = Inr r" and
    rest: "rustLoop P ls (case r of None \<Rightarrow> acc | Some d \<Rightarrow> acc @ [d]) = Inr ds"
    by (auto dest!: bindE_Inr)
  show ?case
  proof (cases r)
    case None
    with rest Cons.IH Cons.prems(2) show ?thesis by simp
  next
    case (Some d)
    with r rustLine_severity have "severity d = ''error'' \<or> severity d = ''warning''" by blast
    with Some rest Cons.IH[of "acc @ [d]"] Cons.prems(2) show ?thesis by simp
  qed
qed

lemma parseRust_inv:
  assumes "parseRustOutput P out = Inr r"
  shows "countsPartition r \<and> (success r \<longleftrightarrow> errorCount r = 0)"
proof -
  from assms obtain ds where
    l: "rustLoop P (split CHR 0x0A out) [] = Inr ds" and
    r: "r = \<lparr>success = (countSeverity ''error'' ds = 0), diagnostics = ds,
             errorCount = countSeverity ''error'' ds,
             warningCount = countSeverity ''warning'' ds, skipped = None\<rparr>"
    unfolding parseRustOutput_def Let_def by (auto dest!: bindE_Inr)
  from rustLoop_severity[OF l] have
    "list_all (\<lambda>d. severity d = ''error'' \<or> severity d = ''warning'') ds" by simp
  from countSeverity_two[OF this] r show ?thesis by (simp add: countsPartition_def)
qed

lemma inv_success:
  "countsPartition r \<Longrightarrow> (success r \<longleftrightarrow> errorCount r = 0) \<Longrightarrow> successIffNoErrors r"
  by (auto simp: countsPartition_def successIffNoErrors_def countSeverity_def filter_empty_conv)

lemma parseGo_success: "\<exists>r. parseGoOutput out = Some r \<and> goSuccess r"
proof -
  from execAll_returns[OF nonnull_regexes(2)] obtain found where
    f: "execAll goRegex None out = Some found" by blast
  then show ?thesis
    by (simp add: parseGoOutput_def Let_def goSuccess_def successIffNoErrors_def
        goDiagnostic_def)
qed

lemma countsPartition_clean: "countsPartition (cleanResult :: ('s, 'n, 'y) BaseDiagnostic_scheme ToolResult)"
  by (simp add: countsPartition_def cleanResult_def countSeverity_def)

lemma countsPartition_skipped: "countsPartition (skippedResult x :: ('s, 'n, 'y) BaseDiagnostic_scheme ToolResult)"
  by (simp add: countsPartition_def skippedResult_def countSeverity_def)

text \<open>
  C3. For every input the tsc, go vet, mypy and pylint parsers return a result whose
  \<open>errorCount\<close> and \<open>warningCount\<close> are the numbers of its diagnostics of severity
  \<open>error\<close> and \<open>warning\<close> and add up to the number of diagnostics (natural numbers, so
  never negative). Every result the cargo parser returns has the property too, but the
  cargo parser does not return for every input: on the line \<open>null\<close>, which \<open>JSON.parse\<close>
  decodes to \<open>null\<close>, reading \<open>msg.reason\<close> throws a \<open>TypeError\<close>.
\<close>

theorem parser_counts:
  "(\<exists>r. parseTscOutput out = Some r \<and> countsPartition r) \<and>
   (\<exists>r. parseGoOutput out = Some r \<and> countsPartition r) \<and>
   (\<exists>r. parseMypyOutput out = Some r \<and> countsPartition r) \<and>
   (\<exists>r. parsePylintOutput out = Some r \<and> countsPartition r) \<and>
   (\<forall>r. parseRustOutput P out = Inr r \<longrightarrow> countsPartition r) \<and>
   (P ''null'' = Some JNull \<longrightarrow> parseRustOutput P ''null'' = Inl TypeError)"
proof -
  have n: "parseRustOutput P ''null'' = Inl TypeError" if "P ''null'' = Some JNull"
    using that
    by (simp add: parseRustOutput_def rustLine_def trim_def isWhiteSpace_def bindE_def)
  have e: "\<exists>r. x = Some r \<and> countsPartition r"
    if "\<exists>r. x = Some r \<and> countsPartition r \<and> Q r"
    for x :: "((('s, 'n, 'y) BaseDiagnostic_scheme), 'z) BaseResult_scheme option" and Q
    using that by blast
  have 1: "\<exists>r. parseTscOutput out = Some r \<and> countsPartition r"
    by (rule e) (rule parseTsc_inv)
  have 2: "\<exists>r. parseGoOutput out = Some r \<and> countsPartition r"
    by (rule e) (rule parseGo_inv)
  have 3: "\<exists>r. parseMypyOutput out = Some r \<and> countsPartition r"
    by (rule e) (rule parseMypy_inv)
  have 4: "\<exists>r. parsePylintOutput out = Some r \<and> countsPartition r"
    by (rule e) (rule parsePylint_inv)
  have 5: "\<forall>r. parseRustOutput P out = Inr r \<longrightarrow> countsPartition r"
    using parseRust_inv[of P out] by simp
  from n show ?thesis
    by (intro conjI 1 2 3 4 5) simp
qed

theorem parser_counts_witness:
  "demoJson ''null'' = Some JNull \<and>
   parseRustOutput demoJson ''null'' = Inl TypeError \<and>
   parseRustOutput demoJson ''two-spans'' =
     Inr \<lparr>success = False, diagnostics = [twoSpansDiagnostic], errorCount = 1,
          warningCount = 0, skipped = None\<rparr> \<and>
   countsPartition (\<lparr>success = False, diagnostics = [twoSpansDiagnostic], errorCount = 1,
          warningCount = 0, skipped = None\<rparr> :: RustResult)"
  using parser_counts [where P = demoJson and out = "''two-spans''"]
  by (simp add: parseRust_two_spans demoJson_def)

section \<open>Safe command names\<close>

lemma runs_reach_end:
  "(\<exists>p'. (p', []) \<in> set (runs a p r)) \<longleftrightarrow> (\<forall>x \<in> set r. atom_ok a x)"
  by (induction r arbitrary: p) auto

lemma search_Bol_later: "search False (Seq Bol e) (Some c) r = None"
  by (induction r arbitrary: c) auto

lemma test_anchored:
  "test (Seq Bol e) s \<longleftrightarrow> ms False (Seq Bol e) (None, s, []) \<noteq> []"
  by (cases s) (auto simp: test_def search_Bol_later split: list.splits)

text \<open>
  The pattern of \<open>commandExists\<close> accepts exactly the non-empty strings that begin with
  an ASCII letter and go on with safe characters only.
\<close>

lemma commandRegex_matches:
  "test commandRegex s \<longleftrightarrow> s \<noteq> [] \<and> asciiLetter (hd s) \<and> (\<forall>x \<in> set (tl s). safeChar x)"
proof -
  let ?first = "Set False [CRange CHR ''a'' CHR ''z'', CRange CHR ''A'' CHR ''Z'']"
  let ?rest = "Set False [CRange CHR ''a'' CHR ''z'', CRange CHR ''A'' CHR ''Z'',
                           CRange CHR ''0'' CHR ''9'', CChar CHR ''.'', CChar CHR ''_'',
                           CChar CHR ''-'']"
  have first: "atom_ok ?first c \<longleftrightarrow> asciiLetter c" for c
    by (simp add: asciiLetter_def)
  have rest: "atom_ok ?rest c \<longleftrightarrow> safeChar c" for c
    by (auto simp: safeChar_def asciiLetter_def)
  have star: "ms False (Seq (Star True ?rest) (Seq Eol Eps)) (p, r, []) \<noteq> [] \<longleftrightarrow>
      (\<forall>x \<in> set r. safeChar x)" for p r
  proof -
    have "ms False (Seq (Star True ?rest) (Seq Eol Eps)) (p, r, []) \<noteq> [] \<longleftrightarrow>
        (\<exists>p'. (p', []) \<in> set (runs ?rest p r))"
      by (auto simp del: atom_ok.simps split: list.splits) force+
    then show ?thesis unfolding runs_reach_end rest .
  qed
  have "test commandRegex s \<longleftrightarrow>
      ms False (Seq Bol (Seq (Atom ?first) (Seq (Star True ?rest) (Seq Eol Eps)))) (None, s, []) \<noteq> []"
    unfolding commandRegex_def seqs.simps by (rule test_anchored)
  also have "\<dots> \<longleftrightarrow> s \<noteq> [] \<and> atom_ok ?first (hd s) \<and>
      ms False (Seq (Star True ?rest) (Seq Eol Eps)) (Some (hd s), tl s, []) \<noteq> []"
    by (cases s) (simp_all del: atom_ok.simps ms.simps(3) add: ms.simps(7)[of _ "Star True ?rest"])
  finally show ?thesis unfolding star first .
qed

lemma commandExists_safe:
  assumes "c \<noteq> []" "asciiLetter (hd c)" "\<forall>x \<in> set (tl c). safeChar x"
  shows "commandExists env c w = (onPath env c, logEvent (probe env c) w)"
  using assms
  by (auto simp: commandExists_def commandRegex_matches spawn_def onPath_def probe_def Let_def
      split: ExecOutcome.splits)

text \<open>
  C10. For a command name that is empty, does not begin with an ASCII letter or holds a
  character other than ASCII letters, digits, \<open>.\<close>, \<open>_\<close> and \<open>-\<close>, \<open>commandExists\<close> returns
  false and leaves the world as it was: the trace gains no process, so \<open>which\<close>/\<open>where\<close>
  is not run. For every other name it runs that one process and returns whether it
  completed. So it returns a boolean for every input: the one call that can throw,
  \<open>execFileSync\<close>, is inside its \<open>try\<close>, whose \<open>catch\<close> returns false.
\<close>

theorem commandExists_rejects_unsafe:
  "(c = [] \<or> \<not> asciiLetter (hd c) \<or> (\<exists>x \<in> set c. \<not> safeChar x) \<longrightarrow>
      commandExists env c w = (False, w)) \<and>
   (\<not> (c = [] \<or> \<not> asciiLetter (hd c) \<or> (\<exists>x \<in> set c. \<not> safeChar x)) \<longrightarrow>
      commandExists env c w = (onPath env c, logEvent (probe env c) w))"
proof (intro conjI impI)
  assume bad: "c = [] \<or> \<not> asciiLetter (hd c) \<or> (\<exists>x \<in> set c. \<not> safeChar x)"
  have "\<not> (c \<noteq> [] \<and> asciiLetter (hd c) \<and> (\<forall>x \<in> set (tl c). safeChar x))"
  proof
    assume ok: "c \<noteq> [] \<and> asciiLetter (hd c) \<and> (\<forall>x \<in> set (tl c). safeChar x)"
    then obtain h t where c: "c = h # t" by (cases c) auto
    with ok have "\<forall>x \<in> set c. safeChar x" by (auto simp: safeChar_def)
    with bad ok show False by blast
  qed
  then have "c = [] \<or> \<not> test commandRegex c" by (simp add: commandRegex_matches)
  then show "commandExists env c w = (False, w)" by (auto simp: commandExists_def)
next
  assume good: "\<not> (c = [] \<or> \<not> asciiLetter (hd c) \<or> (\<exists>x \<in> set c. \<not> safeChar x))"
  then have "c \<noteq> []" "asciiLetter (hd c)" "\<forall>x \<in> set (tl c). safeChar x"
    by (auto dest: list.set_sel(2))
  then show "commandExists env c w = (onPath env c, logEvent (probe env c) w)"
    by (rule commandExists_safe)
qed

theorem commandExists_rejects_unsafe_witness:
  "commandExists demoEnv [] demoWorld = (False, demoWorld) \<and>
   \<not> asciiLetter (hd ''1abc'') \<and> commandExists demoEnv ''1abc'' demoWorld = (False, demoWorld) \<and>
   \<not> safeChar CHR '';'' \<and> commandExists demoEnv ''ls;id'' demoWorld = (False, demoWorld) \<and>
   commandExists demoEnv ''pylint'' demoWorld =
     (True, \<lparr>trace = [Exec ''which'' [''pylint''] None], cachedExtensions = None, lspState = 0\<rparr>)"
  using commandExists_rejects_unsafe [of "[]" demoEnv demoWorld]
    commandExists_rejects_unsafe [of "''1abc''" demoEnv demoWorld]
    commandExists_rejects_unsafe [of "''ls;id''" demoEnv demoWorld]
    commandExists_rejects_unsafe [of "''pylint''" demoEnv demoWorld]
  by (simp add: asciiLetter_def safeChar_def inRange_def onPath_def probe_def demoEnv_def
      demoExec_def demoWorld_def logEvent_def)

lemma commandExists_mypy:
  "commandExists env ''mypy'' w = (onPath env ''mypy'', logEvent (probe env ''mypy'') w)"
  by (rule commandExists_safe) (simp_all add: asciiLetter_def safeChar_def inRange_def)

lemma commandExists_pylint:
  "commandExists env ''pylint'' w = (onPath env ''pylint'', logEvent (probe env ''pylint'') w)"
  by (rule commandExists_safe) (simp_all add: asciiLetter_def safeChar_def inRange_def)

section \<open>The results of the runners\<close>

lemma runTsc_inv:
  "\<exists>r. fst (runTscDiagnostics env d w) = Some r \<and> countsPartition r \<and> (success r \<longleftrightarrow> errorCount r = 0)"
proof (cases "existsSync env (join env d ''tsconfig.json'')")
  case False
  then show ?thesis
    by (simp add: runTscDiagnostics_def Let_def countsPartition_skipped) (simp add: skippedResult_def)
next
  case True
  show ?thesis
  proof (cases "execFileSync env ''tsc'' [''--noEmit'', ''--pretty'', ''false''] (Some d)")
    case (Completed out)
    with True show ?thesis
      by (simp add: runTscDiagnostics_def Let_def spawn_def countsPartition_clean)
        (simp add: cleanResult_def)
  next
    case (Thrown err)
    with True parseTsc_inv[of "orElse (stdout err) (orElse (stderr err) [])"] show ?thesis
      by (auto simp: runTscDiagnostics_def Let_def spawn_def countsPartition_skipped
          skippedResult_def countsPartition_def countSeverity_def crashDiagnostic_def)
  qed
qed

lemma runGo_inv: "\<exists>r. fst (runGoDiagnostics env d w) = Some r \<and> goSuccess r"
proof (cases "existsSync env (join env d ''go.mod'')")
  case False
  then show ?thesis
    by (simp add: runGoDiagnostics_def Let_def skippedResult_def goSuccess_def)
next
  case True
  show ?thesis
  proof (cases "execFileSync env ''go'' [''vet'', ''./...''] (Some d)")
    case (Completed out)
    with True show ?thesis
      by (simp add: runGoDiagnostics_def Let_def spawn_def cleanResult_def goSuccess_def)
  next
    case (Thrown err)
    show ?thesis
    proof (cases "errorCode err = Some ''ENOENT''")
      case True
      with \<open>existsSync env (join env d ''go.mod'')\<close> Thrown show ?thesis
        by (simp add: runGoDiagnostics_def Let_def spawn_def skippedResult_def goSuccess_def)
    next
      case False
      with \<open>existsSync env (join env d ''go.mod'')\<close> Thrown
      have "fst (runGoDiagnostics env d w) =
          parseGoOutput (orElse (stderr err) (orElse (stdout err) []))"
        by (simp add: runGoDiagnostics_def Let_def spawn_def)
      with parseGo_success[of "orElse (stderr err) (orElse (stdout err) [])"]
      show ?thesis by simp
    qed
  qed
qed

lemma runRust_inv:
  assumes "fst (runRustDiagnostics env d w) = Inr r"
  shows "countsPartition r \<and> (success r \<longleftrightarrow> errorCount r = 0)"
proof (cases "existsSync env (join env d ''Cargo.toml'')")
  case False
  with assms show ?thesis
    by (auto simp: runRustDiagnostics_def Let_def skippedResult_def countsPartition_def countSeverity_def)
next
  case True
  show ?thesis
  proof (cases "execFileSync env ''cargo'' [''check'', ''--message-format=json''] (Some d)")
    case (Completed out)
    with True assms show ?thesis
      by (auto simp: runRustDiagnostics_def Let_def spawn_def cleanResult_def countsPartition_def countSeverity_def)
  next
    case (Thrown err)
    with True assms parseRust_inv[of "jsonParse env" "orElse (stdout err) (orElse (stderr err) [])" r]
    show ?thesis
      by (auto simp: runRustDiagnostics_def Let_def spawn_def skippedResult_def
          countsPartition_def countSeverity_def split: if_splits)
  qed
qed

lemma runMypy_inv:
  "\<exists>r. fst (runMypy env d w) = Some r \<and> countsPartition r \<and> (success r \<longleftrightarrow> errorCount r = 0)"
proof (cases "execFileSync env ''mypy'' [''.'', ''--ignore-missing-imports''] (Some d)")
  case (Completed out)
  then show ?thesis
    by (simp add: runMypy_def spawn_def pythonResult_def cleanResult_def ToolResult.extend_def
        PythonToolResult.fields_def countsPartition_def countSeverity_def)
next
  case (Thrown err)
  with parseMypy_inv[of "orElse (stdout err) []"] show ?thesis
    by (auto simp: runMypy_def spawn_def Let_def pythonResult_def skippedResult_def
        ToolResult.extend_def PythonToolResult.fields_def countsPartition_def countSeverity_def
        crashDiagnostic_def)
qed

lemma runPylint_inv:
  "\<exists>r. fst (runPylint env d w) = Some r \<and> countsPartition r \<and> (success r \<longleftrightarrow> errorCount r = 0)"
proof (cases "execFileSync env ''pylint'' [''--output-format=text'', ''--score=no'', ''.''] (Some d)")
  case (Completed out)
  then show ?thesis
    by (simp add: runPylint_def spawn_def pythonResult_def cleanResult_def ToolResult.extend_def
        PythonToolResult.fields_def countsPartition_def countSeverity_def)
next
  case (Thrown err)
  with parsePylint_inv[of "orElse (stdout err) (orElse (stderr err) [])"] show ?thesis
    by (auto simp: runPylint_def spawn_def Let_def pythonResult_def skippedResult_def
        ToolResult.extend_def PythonToolResult.fields_def countsPartition_def countSeverity_def
        crashDiagnostic_def)
qed

lemma runPython_inv:
  "\<exists>r. fst (runPythonDiagnostics env d w) = Some r \<and> countsPartition r \<and>
       (success r \<longleftrightarrow> errorCount r = 0)"
proof -
  have skip: "countsPartition (pythonResult NoTool (skippedResult x)) \<and>
      (success (pythonResult NoTool (skippedResult x)) \<longleftrightarrow>
       errorCount (pythonResult NoTool (skippedResult x)) = 0)" for x
    by (simp add: pythonResult_def skippedResult_def ToolResult.extend_def
        PythonToolResult.fields_def countsPartition_def countSeverity_def)
  show ?thesis
    by (cases "onPath env ''mypy''"; cases "onPath env ''pylint''")
      (simp_all add: runPythonDiagnostics_def commandExists_mypy commandExists_pylint Let_def
        runMypy_inv runPylint_inv skip)
qed

text \<open>
  C1. For every output the tsc, mypy and pylint parsers return a result whose \<open>success\<close>
  holds exactly when \<open>errorCount\<close> is 0 and which succeeds when all its diagnostics are
  warnings; so does every result of the cargo parser and of the tsc, python and rust
  runners. The go vet parser and runner do not: they count no error, every diagnostic
  they return is a warning, and \<open>success\<close> holds only when there is no diagnostic
  (\<open>warningCount\<close> is 0). So every result of go vet with a diagnostic has \<open>errorCount\<close> 0,
  warnings only and \<open>success = False\<close>.
\<close>

theorem success_and_errors:
  "(\<exists>r. parseTscOutput out = Some r \<and> successIffNoErrors r) \<and>
   (\<exists>r. parseMypyOutput out = Some r \<and> successIffNoErrors r) \<and>
   (\<exists>r. parsePylintOutput out = Some r \<and> successIffNoErrors r) \<and>
   (\<forall>r. parseRustOutput P out = Inr r \<longrightarrow> successIffNoErrors r) \<and>
   (\<exists>r. parseGoOutput out = Some r \<and> goSuccess r) \<and>
   (\<exists>r. fst (runTscDiagnostics env d w) = Some r \<and> successIffNoErrors r) \<and>
   (\<exists>r. fst (runPythonDiagnostics env d w) = Some r \<and> successIffNoErrors r) \<and>
   (\<forall>r. fst (runRustDiagnostics env d w) = Inr r \<longrightarrow> successIffNoErrors r) \<and>
   (\<exists>r. fst (runGoDiagnostics env d w) = Some r \<and> goSuccess r)"
proof -
  have some: "\<exists>r. x = Some r \<and> successIffNoErrors r"
    if "\<exists>r. x = Some r \<and> countsPartition r \<and> (success r \<longleftrightarrow> errorCount r = 0)"
    for x :: "((('s, 'n, 'y) BaseDiagnostic_scheme), 'z) BaseResult_scheme option"
  proof -
    from that obtain r where
      r: "x = Some r" "countsPartition r" "success r \<longleftrightarrow> errorCount r = 0"
      by (elim exE conjE)
    from r(2,3) have "successIffNoErrors r" by (rule inv_success)
    with r(1) show ?thesis by (intro exI conjI)
  qed
  have 1: "\<exists>r. parseTscOutput out = Some r \<and> successIffNoErrors r"
    by (rule some) (rule parseTsc_inv)
  have 2: "\<exists>r. parseMypyOutput out = Some r \<and> successIffNoErrors r"
    by (rule some) (rule parseMypy_inv)
  have 3: "\<exists>r. parsePylintOutput out = Some r \<and> successIffNoErrors r"
    by (rule some) (rule parsePylint_inv)
  have 4: "\<forall>r. parseRustOutput P out = Inr r \<longrightarrow> successIffNoErrors r"
  proof (intro allI impI)
    fix r assume h: "parseRustOutput P out = Inr r"
    from parseRust_inv[OF h] have "countsPartition r" "success r \<longleftrightarrow> errorCount r = 0"
      by simp_all
    then show "successIffNoErrors r" by (rule inv_success)
  qed
  have 6: "\<exists>r. fst (runTscDiagnostics env d w) = Some r \<and> successIffNoErrors r"
    by (rule some) (rule runTsc_inv)
  have 7: "\<exists>r. fst (runPythonDiagnostics env d w) = Some r \<and> successIffNoErrors r"
    by (rule some) (rule runPython_inv)
  have 8: "\<forall>r. fst (runRustDiagnostics env d w) = Inr r \<longrightarrow> successIffNoErrors r"
  proof (intro allI impI)
    fix r assume h: "fst (runRustDiagnostics env d w) = Inr r"
    from runRust_inv[OF h] have "countsPartition r" "success r \<longleftrightarrow> errorCount r = 0"
      by simp_all
    then show "successIffNoErrors r" by (rule inv_success)
  qed
  show ?thesis
    by (intro conjI 1 2 3 4 6 7 8 parseGo_success runGo_inv)
qed

theorem success_and_errors_witness:
  "parseTscOutput ''a.ts(1,2): warning TS1: x'' = Some tscWarningResult \<and>
   successIffNoErrors tscWarningResult \<and>
   list_all (\<lambda>d. severity d = ''warning'') (diagnostics tscWarningResult) \<and>
   success tscWarningResult \<and>
   parseRustOutput demoJson ''two-spans'' = Inr twoSpansResult \<and>
   successIffNoErrors twoSpansResult \<and>
   fst (runRustDiagnostics demoEnv ''/rs'' demoWorld) = Inr cleanResult \<and>
   successIffNoErrors (cleanResult :: RustResult) \<and>
   parseGoOutput ''a.go:1:2: x'' = Some goWarningResult \<and>
   fst (runGoDiagnostics goFindingEnv ''/go'' demoWorld) = Some goWarningResult \<and>
   goSuccess goWarningResult \<and>
   errorCount goWarningResult = 0 \<and>
   list_all (\<lambda>d. severity d = ''warning'') (diagnostics goWarningResult) \<and>
   \<not> success goWarningResult \<and>
   \<not> successIffNoErrors goWarningResult"
  using success_and_errors [where out = "''a.ts(1,2): warning TS1: x''" and P = demoJson
      and env = demoEnv and d = "''/rs''" and w = demoWorld]
    success_and_errors [where out = "''two-spans''" and P = demoJson
      and env = demoEnv and d = "''/rs''" and w = demoWorld]
    success_and_errors [where out = "''a.go:1:2: x''" and P = demoJson
      and env = goFindingEnv and d = "''/go''" and w = demoWorld]
  by (simp add: tsc_example parseRust_two_spans demo_rust_run tscWarningResult_def
      twoSpansResult_def go_example demo_go_run goWarningResult_def goSuccess_def)

text \<open>
  C2. When the tool exits non-zero (not a missing binary) with both streams empty, the
  tsc runner and both python tools return \<open>success = False\<close> with exactly one diagnostic:
  file \<open>.\<close>, line 0, column 0, severity \<open>error\<close>, code \<open>tsc-crash\<close>, \<open>mypy-crash\<close> or
  \<open>pylint-crash\<close>, and a message that begins with the tool's name. The go and the rust
  runner have no such branch: they parse the empty output and return \<open>success = True\<close>
  with no diagnostic.
\<close>

theorem silent_crash:
  fixes env :: "('l, 'c) Env"
  assumes "errorCode err \<noteq> Some ''ENOENT''" "stdout err = []" "stderr err = []"
  shows
  "(existsSync env (join env d ''tsconfig.json'') \<and>
    execFileSync env ''tsc'' [''--noEmit'', ''--pretty'', ''false''] (Some d) = Thrown err \<longrightarrow>
      fst (runTscDiagnostics env d w) =
        Some \<lparr>success = False,
          diagnostics = [\<lparr>file' = ''.'', line = 0, column = 0,
            message = ''tsc exited with errors but produced no diagnostic output (possible configuration issue)'',
            severity = ''error'', code = ''tsc-crash''\<rparr>],
          errorCount = 1, warningCount = 0, skipped = None\<rparr>) \<and>
   (execFileSync env ''mypy'' [''.'', ''--ignore-missing-imports''] (Some d) = Thrown err \<longrightarrow>
      fst (runMypy env d w) =
        Some \<lparr>success = False,
          diagnostics = [\<lparr>file' = ''.'', line = 0, column = 0,
            message = ''mypy exited with errors but produced no diagnostic output (possible configuration issue)'',
            severity = ''error'', code = ''mypy-crash''\<rparr>],
          errorCount = 1, warningCount = 0, skipped = None, tool = Mypy\<rparr>) \<and>
   (execFileSync env ''pylint'' [''--output-format=text'', ''--score=no'', ''.''] (Some d) = Thrown err \<longrightarrow>
      fst (runPylint env d w) =
        Some \<lparr>success = False,
          diagnostics = [\<lparr>file' = ''.'', line = 0, column = 0,
            message = ''pylint exited with errors but produced no diagnostic output (possible configuration issue)'',
            severity = ''error'', code = ''pylint-crash''\<rparr>],
          errorCount = 1, warningCount = 0, skipped = None, tool = Pylint\<rparr>) \<and>
   (existsSync env (join env d ''go.mod'') \<and>
    execFileSync env ''go'' [''vet'', ''./...''] (Some d) = Thrown err \<longrightarrow>
      fst (runGoDiagnostics env d w) =
        Some \<lparr>success = True, diagnostics = [], errorCount = 0, warningCount = 0,
               skipped = None\<rparr>) \<and>
   (existsSync env (join env d ''Cargo.toml'') \<and>
    execFileSync env ''cargo'' [''check'', ''--message-format=json''] (Some d) = Thrown err \<longrightarrow>
      fst (runRustDiagnostics env d w) =
        Inr \<lparr>success = True, diagnostics = [], errorCount = 0, warningCount = 0,
              skipped = None\<rparr>)"
  using assms
  by (simp add: runTscDiagnostics_def runMypy_def runPylint_def runGoDiagnostics_def
      runRustDiagnostics_def spawn_def Let_def orElse_def trim_def crashDiagnostic_def
      parseGo_empty parseRust_empty cleanResult_def)

theorem silent_crash_witness:
  "fst (runTscDiagnostics demoEnv ''/ts'' demoWorld) =
     Some \<lparr>success = False,
       diagnostics = [\<lparr>file' = ''.'', line = 0, column = 0,
         message = ''tsc exited with errors but produced no diagnostic output (possible configuration issue)'',
         severity = ''error'', code = ''tsc-crash''\<rparr>],
       errorCount = 1, warningCount = 0, skipped = None\<rparr> \<and>
   fst (runMypy demoEnv ''/py'' demoWorld) =
     Some \<lparr>success = False,
       diagnostics = [\<lparr>file' = ''.'', line = 0, column = 0,
         message = ''mypy exited with errors but produced no diagnostic output (possible configuration issue)'',
         severity = ''error'', code = ''mypy-crash''\<rparr>],
       errorCount = 1, warningCount = 0, skipped = None, tool = Mypy\<rparr> \<and>
   fst (runPylint silentEnv ''/py'' demoWorld) =
     Some \<lparr>success = False,
       diagnostics = [\<lparr>file' = ''.'', line = 0, column = 0,
         message = ''pylint exited with errors but produced no diagnostic output (possible configuration issue)'',
         severity = ''error'', code = ''pylint-crash''\<rparr>],
       errorCount = 1, warningCount = 0, skipped = None, tool = Pylint\<rparr> \<and>
   fst (runGoDiagnostics demoEnv ''/go'' demoWorld) =
     Some \<lparr>success = True, diagnostics = [], errorCount = 0, warningCount = 0, skipped = None\<rparr> \<and>
   fst (runRustDiagnostics demoEnv ''/rs'' demoWorld) =
     Inr \<lparr>success = True, diagnostics = [], errorCount = 0, warningCount = 0, skipped = None\<rparr>"
  using silent_crash [where err = silentFailure and env = demoEnv and d = "''/ts''" and w = demoWorld]
    silent_crash [where err = silentFailure and env = demoEnv and d = "''/py''" and w = demoWorld]
    silent_crash [where err = silentFailure and env = silentEnv and d = "''/py''" and w = demoWorld]
    silent_crash [where err = silentFailure and env = demoEnv and d = "''/go''" and w = demoWorld]
    silent_crash [where err = silentFailure and env = demoEnv and d = "''/rs''" and w = demoWorld]
  by (simp add: demoEnv_fields silentEnv_fields demo_exec silentFailure_def)

lemma processes_logEvent [simp]:
  "processes (logEvent e w) = processes w @ (if isCall e then [] else [e])"
  by (simp add: processes_def logEvent_def)

lemma calls_logEvent [simp]:
  "calls (logEvent e w) = calls w @ (if isCall e then [e] else [])"
  by (simp add: calls_def logEvent_def)

lemma runMypy_process:
  "processes (snd (runMypy env d w)) =
     processes w @ [Exec ''mypy'' [''.'', ''--ignore-missing-imports''] (Some d)]"
  by (simp add: runMypy_def spawn_def Let_def split: ExecOutcome.splits)

lemma runPylint_process:
  "processes (snd (runPylint env d w)) =
     processes w @ [Exec ''pylint'' [''--output-format=text'', ''--score=no'', ''.''] (Some d)]"
  by (simp add: runPylint_def spawn_def Let_def split: ExecOutcome.splits)

text \<open>
  C8. Without any of pyproject.toml, requirements.txt and setup.py, \<open>runPythonDiagnostics\<close>
  returns a skipped result that says so and starts no process. With a marker it probes
  for mypy and, when mypy is on the search path, runs mypy; else it probes for pylint and,
  when pylint is on the search path, runs pylint; else it returns a skipped result with
  \<open>success = True\<close>, no diagnostic and a reason that names mypy and pylint.
\<close>

theorem runPython_tool_choice:
  fixes env :: "('l, 'c) Env"
  defines "marker \<equiv> \<lambda>d. existsSync env (join env d ''pyproject.toml'') \<or>
                          existsSync env (join env d ''requirements.txt'') \<or>
                          existsSync env (join env d ''setup.py'')"
  shows
  "(\<not> marker d \<longrightarrow>
      runPythonDiagnostics env d w =
        (Some \<lparr>success = True, diagnostics = [], errorCount = 0, warningCount = 0,
               skipped = Some ''no Python project files found (pyproject.toml, requirements.txt, or setup.py)'',
               tool = NoTool\<rparr>,
         logEvent (CallRunner Python d) w)) \<and>
   (marker d \<and> onPath env ''mypy'' \<longrightarrow>
      runPythonDiagnostics env d w =
        runMypy env d (logEvent (probe env ''mypy'') (logEvent (CallRunner Python d) w)) \<and>
      processes (snd (runPythonDiagnostics env d w)) =
        processes w @ [probe env ''mypy'',
                       Exec ''mypy'' [''.'', ''--ignore-missing-imports''] (Some d)]) \<and>
   (marker d \<and> \<not> onPath env ''mypy'' \<and> onPath env ''pylint'' \<longrightarrow>
      runPythonDiagnostics env d w =
        runPylint env d (logEvent (probe env ''pylint'')
          (logEvent (probe env ''mypy'') (logEvent (CallRunner Python d) w))) \<and>
      processes (snd (runPythonDiagnostics env d w)) =
        processes w @ [probe env ''mypy'', probe env ''pylint'',
                       Exec ''pylint'' [''--output-format=text'', ''--score=no'', ''.''] (Some d)]) \<and>
   (marker d \<and> \<not> onPath env ''mypy'' \<and> \<not> onPath env ''pylint'' \<longrightarrow>
      runPythonDiagnostics env d w =
        (Some \<lparr>success = True, diagnostics = [], errorCount = 0, warningCount = 0,
               skipped = Some ''neither mypy nor pylint found in PATH'', tool = NoTool\<rparr>,
         logEvent (probe env ''pylint'')
           (logEvent (probe env ''mypy'') (logEvent (CallRunner Python d) w)))) \<and>
   sublist ''mypy'' ''neither mypy nor pylint found in PATH'' \<and>
   sublist ''pylint'' ''neither mypy nor pylint found in PATH''"
proof -
  have s1: "sublist ''mypy'' ''neither mypy nor pylint found in PATH''"
    using sublist_mid[of "''mypy''" "''neither ''" "'' nor pylint found in PATH''"] by simp
  have s2: "sublist ''pylint'' ''neither mypy nor pylint found in PATH''"
    using sublist_mid[of "''pylint''" "''neither mypy nor ''" "'' found in PATH''"] by simp
  have isc: "\<not> isCall (probe env c)" for c by (simp add: probe_def)
  show ?thesis
    unfolding marker_def
    by (simp add: runPythonDiagnostics_def commandExists_mypy commandExists_pylint Let_def
        pythonResult_def skippedResult_def ToolResult.extend_def PythonToolResult.fields_def
        runMypy_process runPylint_process isc s1 s2)
qed

theorem runPython_tool_choice_witness:
  "\<not> onPath demoEnv ''mypy'' \<and> onPath demoEnv ''pylint'' \<and>
   fst (runPythonDiagnostics demoEnv ''/py'' demoWorld) =
     Some \<lparr>success = True,
       diagnostics = [\<lparr>file' = ''a.py'', line = 1, column = 0, message = ''x'',
                      severity = ''warning'', code = ''W0611''\<rparr>],
       errorCount = 0, warningCount = 1, skipped = None, tool = Pylint\<rparr> \<and>
   processes (snd (runPythonDiagnostics demoEnv ''/py'' demoWorld)) =
     [Exec ''which'' [''mypy''] None, Exec ''which'' [''pylint''] None,
      Exec ''pylint'' [''--output-format=text'', ''--score=no'', ''.''] (Some ''/py'')] \<and>
   fst (runPythonDiagnostics demoEnv ''/empty'' demoWorld) =
     Some \<lparr>success = True, diagnostics = [], errorCount = 0, warningCount = 0,
            skipped = Some ''no Python project files found (pyproject.toml, requirements.txt, or setup.py)'',
            tool = NoTool\<rparr> \<and>
   onPath cleanEnv ''mypy'' \<and>
   fst (runPythonDiagnostics cleanEnv ''/py'' demoWorld) =
     Some \<lparr>success = True, diagnostics = [], errorCount = 0, warningCount = 0,
            skipped = None, tool = Mypy\<rparr> \<and>
   \<not> onPath silentEnv ''mypy'' \<and> \<not> onPath silentEnv ''pylint'' \<and>
   fst (runPythonDiagnostics silentEnv ''/py'' demoWorld) =
     Some \<lparr>success = True, diagnostics = [], errorCount = 0, warningCount = 0,
            skipped = Some ''neither mypy nor pylint found in PATH'', tool = NoTool\<rparr>"
  using runPython_tool_choice [where env = demoEnv and d = "''/py''" and w = demoWorld]
    runPython_tool_choice [where env = demoEnv and d = "''/empty''" and w = demoWorld]
    runPython_tool_choice [where env = cleanEnv and d = "''/py''" and w = demoWorld]
    runPython_tool_choice [where env = silentEnv and d = "''/py''" and w = demoWorld]
  by (simp add: onPath_def probe_def demoEnv_fields silentEnv_fields cleanEnv_fields demo_exec
      runPylint_def runMypy_def spawn_def orElse_def pylint_example demoWorld_def processes_def
      logEvent_def pythonResult_def cleanResult_def ToolResult.extend_def
      PythonToolResult.fields_def trim_def isWhiteSpace_def)

section \<open>The primary span\<close>

lemma findPrimary_Some:
  "findPrimary xs = Inr (Some s) \<Longrightarrow>
     \<exists>before after. xs = before @ s # after \<and> isPrimary s \<and> (\<forall>b \<in> set before. \<not> isPrimary b)"
proof (induction xs)
  case Nil
  then show ?case by simp
next
  case (Cons x xs)
  from Cons.prems obtain v where v: "getProp (Some x) ''is_primary'' = Inr v"
    and rest: "(if truthy v then Inr (Some x) else findPrimary xs) = Inr (Some s)"
    by (auto dest!: bindE_Inr)
  show ?case
  proof (cases "truthy v")
    case True
    with rest v have "x = s" "isPrimary s" by (simp_all add: isPrimary_def)
    then show ?thesis by (intro exI[of _ "[]"] exI[of _ xs]) simp
  next
    case False
    with rest have "findPrimary xs = Inr (Some s)" by simp
    from Cons.IH[OF this] obtain before after where
      b: "xs = before @ s # after" "isPrimary s" "\<forall>b \<in> set before. \<not> isPrimary b" by blast
    from False v have "\<not> isPrimary x" by (simp add: isPrimary_def)
    with b show ?thesis by (intro exI[of _ "x # before"] exI[of _ after]) simp
  qed
qed

lemma optFindPrimary_Some:
  assumes "optFindPrimary spans = Inr sp" "truthy sp"
  shows "\<exists>before s after. spans = Some (JArr (before @ s # after)) \<and> sp = Some s \<and>
           isPrimary s \<and> (\<forall>b \<in> set before. \<not> isPrimary b)"
proof -
  from assms(2) obtain s where s: "sp = Some s" by (cases sp) simp_all
  from assms(1) s obtain xs where xs: "spans = Some (JArr xs)" "findPrimary xs = Inr (Some s)"
    by (cases spans rule: optFindPrimary.cases) simp_all
  from findPrimary_Some[OF xs(2)] xs(1) s show ?thesis by blast
qed

lemma rustDiagnostic_location:
  "rustDiagnostic inner level sp = Inr d \<Longrightarrow>
     getProp sp ''file_name'' = Inr (file' d) \<and> getProp sp ''line_start'' = Inr (line d) \<and>
     getProp sp ''column_start'' = Inr (column d)"
  unfolding rustDiagnostic_def
  by (auto dest!: bindE_Inr)

lemma rustLoop_lines:
  "rustLoop P ls acc = Inr ds \<Longrightarrow> ds = acc @ List.map_filter (lineDiagnostic P) ls"
proof (induction ls arbitrary: acc)
  case Nil
  then show ?case by (simp add: List.map_filter_simps)
next
  case (Cons l ls)
  from Cons.prems obtain r where
    r: "rustLine P l = Inr r" and
    rest: "rustLoop P ls (case r of None \<Rightarrow> acc | Some d \<Rightarrow> acc @ [d]) = Inr ds"
    by (auto dest!: bindE_Inr)
  from Cons.IH[OF rest] r show ?case
    by (cases r) (simp_all add: List.map_filter_simps lineDiagnostic_def)
qed

text \<open>
  C7. A line of cargo output gives a diagnostic only if it decodes to a value whose
  \<open>reason\<close> is \<open>compiler-message\<close>, whose message has level \<open>error\<close> or \<open>warning\<close> and
  whose spans hold a span marked primary; file, line and column of the diagnostic are
  \<open>file_name\<close>, \<open>line_start\<close> and \<open>column_start\<close> of the first such span, whatever the
  spans before and after it hold. A message without a primary span, a line that does not
  decode, a line with another reason and a message of another level (\<open>note\<close>) give no
  diagnostic, and the loop goes on to the next line (but for a line that decodes to
  \<open>null\<close>, where it throws). The diagnostics of a result are those of its lines, in order.
\<close>

theorem rust_primary_span:
  "(rustLine P l = Inr (Some d) \<longrightarrow>
      (\<exists>msg inner before s after.
         P (trim l) = Some msg \<and>
         getProp (Some msg) ''reason'' = Inr (Some (JStr ''compiler-message'')) \<and>
         getProp (Some msg) ''message'' = Inr inner \<and>
         (getProp inner ''level'' = Inr (Some (JStr ''error'')) \<or>
          getProp inner ''level'' = Inr (Some (JStr ''warning''))) \<and>
         getProp inner ''spans'' = Inr (Some (JArr (before @ s # after))) \<and>
         (\<forall>b \<in> set before. \<not> isPrimary b) \<and> isPrimary s \<and>
         getProp (Some s) ''file_name'' = Inr (file' d) \<and>
         getProp (Some s) ''line_start'' = Inr (line d) \<and>
         getProp (Some s) ''column_start'' = Inr (column d))) \<and>
   (P (trim l) = Some msg \<and> getProp (Some msg) ''message'' = Inr inner \<and>
    getProp inner ''spans'' = Inr (Some (JArr spans)) \<and> (\<forall>s \<in> set spans. \<not> isPrimary s) \<longrightarrow>
      lineDiagnostic P l = None) \<and>
   (P (trim l) = None \<longrightarrow> rustLine P l = Inr None) \<and>
   (P (trim l) = Some msg \<and>
    getProp (Some msg) ''reason'' \<noteq> Inr (Some (JStr ''compiler-message'')) \<longrightarrow>
      lineDiagnostic P l = None \<and> (msg \<noteq> JNull \<longrightarrow> rustLine P l = Inr None)) \<and>
   (P (trim l) = Some msg \<and>
    getProp (Some msg) ''reason'' = Inr (Some (JStr ''compiler-message'')) \<and>
    getProp (Some msg) ''message'' = Inr inner \<and>
    getProp inner ''level'' \<noteq> Inr (Some (JStr ''error'')) \<and>
    getProp inner ''level'' \<noteq> Inr (Some (JStr ''warning'')) \<longrightarrow>
      rustLine P l = Inr None) \<and>
   (parseRustOutput P out = Inr r \<longrightarrow>
      diagnostics r = List.map_filter (lineDiagnostic P) (split CHR 0x0A out))"
proof -
  have A: "\<exists>msg inner before s after.
         P (trim l) = Some msg \<and>
         getProp (Some msg) ''reason'' = Inr (Some (JStr ''compiler-message'')) \<and>
         getProp (Some msg) ''message'' = Inr inner \<and>
         (getProp inner ''level'' = Inr (Some (JStr ''error'')) \<or>
          getProp inner ''level'' = Inr (Some (JStr ''warning''))) \<and>
         getProp inner ''spans'' = Inr (Some (JArr (before @ s # after))) \<and>
         (\<forall>b \<in> set before. \<not> isPrimary b) \<and> isPrimary s \<and>
         getProp (Some s) ''file_name'' = Inr (file' d) \<and>
         getProp (Some s) ''line_start'' = Inr (line d) \<and>
         getProp (Some s) ''column_start'' = Inr (column d)"
    if h: "rustLine P l = Inr (Some d)" for d
  proof -
    from rustLine_Some[OF h] obtain msg inner level spans sp where
      f: "P (trim l) = Some msg"
      "getProp (Some msg) ''reason'' = Inr (Some (JStr ''compiler-message''))"
      "getProp (Some msg) ''message'' = Inr inner"
      "getProp inner ''level'' = Inr level"
      "level = Some (JStr ''error'') \<or> level = Some (JStr ''warning'')"
      "getProp inner ''spans'' = Inr spans"
      "optFindPrimary spans = Inr sp" "truthy sp"
      "rustDiagnostic inner level sp = Inr d"
      by blast
    from optFindPrimary_Some[OF f(7,8)] obtain before s after where
      s: "spans = Some (JArr (before @ s # after))" "sp = Some s" "isPrimary s"
      "\<forall>b \<in> set before. \<not> isPrimary b" by blast
    from rustDiagnostic_location[OF f(9)] s(2) have
      loc: "getProp (Some s) ''file_name'' = Inr (file' d)"
      "getProp (Some s) ''line_start'' = Inr (line d)"
      "getProp (Some s) ''column_start'' = Inr (column d)" by simp_all
    from f(1,2,3,4,5,6) s loc show ?thesis by blast
  qed
  have none: "lineDiagnostic P l = None" if "\<And>d. rustLine P l \<noteq> Inr (Some d)"
    using that by (auto simp: lineDiagnostic_def split: sum.splits option.splits)
  have B: "lineDiagnostic P l = None"
    if "P (trim l) = Some msg" "getProp (Some msg) ''message'' = Inr inner"
      "getProp inner ''spans'' = Inr (Some (JArr spans))" "\<forall>s \<in> set spans. \<not> isPrimary s"
  proof (rule none)
    fix d show "rustLine P l \<noteq> Inr (Some d)"
    proof
      assume "rustLine P l = Inr (Some d)"
      from A[OF this] that show False by auto
    qed
  qed
  have C: "rustLine P l = Inr None" if "P (trim l) = None"
    using that by (simp add: rustLine_def Let_def)
  have D: "lineDiagnostic P l = None"
    if "P (trim l) = Some msg"
      "getProp (Some msg) ''reason'' \<noteq> Inr (Some (JStr ''compiler-message''))"
  proof (rule none)
    fix d show "rustLine P l \<noteq> Inr (Some d)"
    proof
      assume "rustLine P l = Inr (Some d)"
      from A[OF this] that show False by auto
    qed
  qed
  have D': "rustLine P l = Inr None"
    if "P (trim l) = Some msg" "msg \<noteq> JNull"
      "getProp (Some msg) ''reason'' \<noteq> Inr (Some (JStr ''compiler-message''))"
  proof -
    from that(2) obtain x where x: "getProp (Some msg) ''reason'' = Inr x"
      by (cases msg) simp_all
    from that(1,3) x show ?thesis
      by (cases "trim l = []") (simp_all add: rustLine_def Let_def bindE_def)
  qed
  have E: "rustLine P l = Inr None"
    if "P (trim l) = Some msg"
      "getProp (Some msg) ''reason'' = Inr (Some (JStr ''compiler-message''))"
      "getProp (Some msg) ''message'' = Inr inner"
      "getProp inner ''level'' \<noteq> Inr (Some (JStr ''error''))"
      "getProp inner ''level'' \<noteq> Inr (Some (JStr ''warning''))"
  proof (cases "truthy inner")
    case False
    with that(1,2,3) show ?thesis
      by (cases "trim l = []") (simp_all add: rustLine_def Let_def bindE_def)
  next
    case True
    then obtain x where x: "getProp inner ''level'' = Inr x"
      by (cases inner rule: truthy.cases) simp_all
    with that True show ?thesis
      by (cases "trim l = []") (simp_all add: rustLine_def Let_def bindE_def)
  qed
  have F: "diagnostics r = List.map_filter (lineDiagnostic P) (split CHR 0x0A out)"
    if "parseRustOutput P out = Inr r"
  proof -
    from that obtain ds where
      l: "rustLoop P (split CHR 0x0A out) [] = Inr ds" and r: "diagnostics r = ds"
      unfolding parseRustOutput_def Let_def by (auto dest!: bindE_Inr)
    from rustLoop_lines[OF l] r show ?thesis by simp
  qed
  from A B C D D' E F show ?thesis by blast
qed

theorem rust_primary_span_witness:
  "rustLine demoJson ''two-spans'' = Inr (Some twoSpansDiagnostic) \<and>
   file' twoSpansDiagnostic = Some (JStr ''src/main.rs'') \<and>
   line twoSpansDiagnostic = Some (JNum 10) \<and>
   column twoSpansDiagnostic = Some (JNum 5) \<and>
   lineDiagnostic demoJson ''no-primary'' = None \<and>
   rustLine demoJson ''garbage'' = Inr None \<and>
   lineDiagnostic demoJson ''build-finished'' = None \<and>
   lineDiagnostic demoJson ''note'' = None \<and>
   List.map_filter (lineDiagnostic demoJson)
     (split CHR 0x0A
        (''garbage'' @ [CHR 0x0A] @ ''build-finished'' @ [CHR 0x0A] @ ''note'' @ [CHR 0x0A] @
         ''no-primary'' @ [CHR 0x0A] @ ''two-spans'')) = [twoSpansDiagnostic]"
  using rust_primary_span [where P = demoJson and l = "''two-spans''" and d = twoSpansDiagnostic
      and out = "''garbage'' @ [CHR 0x0A] @ ''build-finished'' @ [CHR 0x0A] @ ''note'' @ [CHR 0x0A] @
         ''no-primary'' @ [CHR 0x0A] @ ''two-spans''"
      and r = "\<lparr>success = False, diagnostics = [twoSpansDiagnostic], errorCount = 1,
          warningCount = 0, skipped = None\<rparr>"]
    parseRust_five_lines
  by (simp add: rust_two_spans rust_other_lines lineDiagnostic_def twoSpansDiagnostic_def
      List.map_filter_simps)

section \<open>The dispatcher\<close>

text \<open>
  C6. \<open>detectProjectType\<close> checks the markers in the order tsconfig.json, go.mod, Cargo.toml,
  then any of pyproject.toml, requirements.txt and setup.py, and returns at the first that
  exists: with tsconfig.json it answers typescript whatever else is there (so also beside
  a go.mod); without any marker it answers unknown.
\<close>

theorem detectProjectType_priority:
  fixes env :: "('l, 'c) Env"
  defines "has \<equiv> \<lambda>d n. existsSync env (join env d n)"
  shows "(has d ''tsconfig.json'' \<longrightarrow> fst (detectProjectType env d w) = PTypescript) \<and>
    (\<not> has d ''tsconfig.json'' \<and> has d ''go.mod'' \<longrightarrow> fst (detectProjectType env d w) = PGo) \<and>
    (\<not> has d ''tsconfig.json'' \<and> \<not> has d ''go.mod'' \<and> has d ''Cargo.toml'' \<longrightarrow>
       fst (detectProjectType env d w) = PRust) \<and>
    (\<not> has d ''tsconfig.json'' \<and> \<not> has d ''go.mod'' \<and> \<not> has d ''Cargo.toml'' \<and>
     (has d ''pyproject.toml'' \<or> has d ''requirements.txt'' \<or> has d ''setup.py'') \<longrightarrow>
       fst (detectProjectType env d w) = PPython) \<and>
    (\<not> has d ''tsconfig.json'' \<and> \<not> has d ''go.mod'' \<and> \<not> has d ''Cargo.toml'' \<and>
     \<not> has d ''pyproject.toml'' \<and> \<not> has d ''requirements.txt'' \<and> \<not> has d ''setup.py'' \<longrightarrow>
       fst (detectProjectType env d w) = PUnknown) \<and>
    (has d ''tsconfig.json'' \<and> has d ''go.mod'' \<longrightarrow> fst (detectProjectType env d w) = PTypescript)"
  by (simp add: has_def detectProjectType_def Let_def)

theorem detectProjectType_priority_witness:
  "existsSync demoEnv (join demoEnv ''/ts'' ''tsconfig.json'') \<and>
   existsSync demoEnv (join demoEnv ''/ts'' ''go.mod'') \<and>
   fst (detectProjectType demoEnv ''/ts'' demoWorld) = PTypescript \<and>
   fst (detectProjectType demoEnv ''/go'' demoWorld) = PGo \<and>
   fst (detectProjectType demoEnv ''/rs'' demoWorld) = PRust \<and>
   fst (detectProjectType demoEnv ''/py'' demoWorld) = PPython \<and>
   fst (detectProjectType demoEnv ''/empty'' demoWorld) = PUnknown"
  using detectProjectType_priority [of demoEnv "''/ts''" demoWorld]
    detectProjectType_priority [of demoEnv "''/go''" demoWorld]
    detectProjectType_priority [of demoEnv "''/rs''" demoWorld]
    detectProjectType_priority [of demoEnv "''/py''" demoWorld]
    detectProjectType_priority [of demoEnv "''/empty''" demoWorld]
  by (simp add: demoEnv_def)

text \<open>
  C4. For a path that does not exist, for a path that exists and is not a directory, and
  for a directory whose real path cannot be resolved, \<open>runDirectoryDiagnostics\<close> returns
  the skipped result (\<open>strategy = Skipped\<close>, \<open>success = True\<close>, both counts 0) with a
  summary that contains \<open>does not exist\<close>, \<open>not a directory\<close> and
  \<open>cannot resolve directory path\<close> respectively. The world is returned as it was: no
  detector, no runner and no process is called.
\<close>

theorem invalid_directory_skipped:
  fixes env :: "('l, 'c) Env"
  shows
  "(\<not> existsSync env d \<longrightarrow>
      runDirectoryDiagnostics env d strat w =
        (Returns \<lparr>success = True, diagnostics = [], errorCount = 0, warningCount = 0,
                  strategy = Skipped,
                  summary = ''Diagnostics skipped: directory does not exist: '' @ d\<rparr>, w) \<and>
      sublist ''does not exist'' (''Diagnostics skipped: directory does not exist: '' @ d)) \<and>
   (existsSync env d \<and> statSync env d = Some st \<and> \<not> isDirectory st \<longrightarrow>
      runDirectoryDiagnostics env d strat w =
        (Returns \<lparr>success = True, diagnostics = [], errorCount = 0, warningCount = 0,
                  strategy = Skipped,
                  summary = ''Diagnostics skipped: path is not a directory: '' @ d\<rparr>, w) \<and>
      sublist ''not a directory'' (''Diagnostics skipped: path is not a directory: '' @ d)) \<and>
   (existsSync env d \<and> statSync env d = Some st \<and> isDirectory st \<and> realpathSync env d = None \<longrightarrow>
      runDirectoryDiagnostics env d strat w =
        (Returns \<lparr>success = True, diagnostics = [], errorCount = 0, warningCount = 0,
                  strategy = Skipped,
                  summary = ''Diagnostics skipped: cannot resolve directory path: '' @ d\<rparr>, w) \<and>
      sublist ''cannot resolve directory path''
        (''Diagnostics skipped: cannot resolve directory path: '' @ d))"
proof -
  have s1: "sublist ''does not exist'' (''Diagnostics skipped: directory does not exist: '' @ d)"
    using sublist_mid[of "''does not exist''" "''Diagnostics skipped: directory ''" "'': '' @ d"]
    by simp
  have s2: "sublist ''not a directory'' (''Diagnostics skipped: path is not a directory: '' @ d)"
    using sublist_mid[of "''not a directory''" "''Diagnostics skipped: path is ''" "'': '' @ d"]
    by simp
  have s3: "sublist ''cannot resolve directory path''
        (''Diagnostics skipped: cannot resolve directory path: '' @ d)"
    using sublist_mid[of "''cannot resolve directory path''" "''Diagnostics skipped: ''" "'': '' @ d"]
    by simp
  show ?thesis
    by (simp add: runDirectoryDiagnostics_def makeSkippedResult_def s1 s2 s3 del: append.simps)
qed

theorem invalid_directory_skipped_witness:
  "\<not> existsSync demoEnv ''/nowhere'' \<and>
   runDirectoryDiagnostics demoEnv ''/nowhere'' Auto demoWorld =
     (Returns \<lparr>success = True, diagnostics = [], errorCount = 0, warningCount = 0,
               strategy = Skipped,
               summary = ''Diagnostics skipped: directory does not exist: /nowhere''\<rparr>, demoWorld) \<and>
   existsSync demoEnv ''/file.txt'' \<and>
   statSync demoEnv ''/file.txt'' = Some \<lparr>isDirectory = False, isFile = True\<rparr> \<and>
   runDirectoryDiagnostics demoEnv ''/file.txt'' (Named Tsc) demoWorld =
     (Returns \<lparr>success = True, diagnostics = [], errorCount = 0, warningCount = 0,
               strategy = Skipped,
               summary = ''Diagnostics skipped: path is not a directory: /file.txt''\<rparr>, demoWorld) \<and>
   existsSync demoEnv ''/dangling'' \<and>
   statSync demoEnv ''/dangling'' = Some \<lparr>isDirectory = True, isFile = False\<rparr> \<and>
   realpathSync demoEnv ''/dangling'' = None \<and>
   runDirectoryDiagnostics demoEnv ''/dangling'' (Named Lsp) demoWorld =
     (Returns \<lparr>success = True, diagnostics = [], errorCount = 0, warningCount = 0,
               strategy = Skipped,
               summary = ''Diagnostics skipped: cannot resolve directory path: /dangling''\<rparr>, demoWorld)"
  using invalid_directory_skipped [where env = demoEnv and d = "''/nowhere''" and strat = Auto and w = demoWorld]
    invalid_directory_skipped [where env = demoEnv and d = "''/file.txt''"
      and st = "\<lparr>isDirectory = False, isFile = True\<rparr>" and strat = "Named Tsc" and w = demoWorld]
    invalid_directory_skipped [where env = demoEnv and d = "''/dangling''"
      and st = "\<lparr>isDirectory = True, isFile = False\<rparr>" and strat = "Named Lsp" and w = demoWorld]
  by (simp add: demoEnv_def)

lemma calls_runTsc: "calls (snd (runTscDiagnostics env d w)) = calls w @ [CallRunner Tsc d]"
  by (simp add: runTscDiagnostics_def spawn_def Let_def split: ExecOutcome.splits)

lemma calls_runGo: "calls (snd (runGoDiagnostics env d w)) = calls w @ [CallRunner Go d]"
  by (simp add: runGoDiagnostics_def spawn_def Let_def split: ExecOutcome.splits)

lemma calls_runRust: "calls (snd (runRustDiagnostics env d w)) = calls w @ [CallRunner Rust d]"
  by (simp add: runRustDiagnostics_def spawn_def Let_def split: ExecOutcome.splits)

lemma calls_commandExists: "calls (snd (commandExists env c w)) = calls w"
  by (simp add: commandExists_def spawn_def Let_def split: ExecOutcome.splits)

lemma calls_runMypy: "calls (snd (runMypy env d w)) = calls w"
  by (simp add: runMypy_def spawn_def Let_def split: ExecOutcome.splits)

lemma calls_runPylint: "calls (snd (runPylint env d w)) = calls w"
  by (simp add: runPylint_def spawn_def Let_def split: ExecOutcome.splits)

lemma calls_runPython:
  "calls (snd (runPythonDiagnostics env d w)) = calls w @ [CallRunner Python d]"
proof -
  have isc: "\<not> isCall (probe env c)" for c by (simp add: probe_def)
  show ?thesis
    by (cases "onPath env ''mypy''"; cases "onPath env ''pylint''")
      (simp_all add: runPythonDiagnostics_def commandExists_mypy commandExists_pylint Let_def
        calls_runMypy calls_runPylint isc)
qed

lemma trace_lspFile: "trace (snd (lspFile env f w)) = trace w"
  by (simp add: lspFile_def split: prod.splits option.splits)

lemma trace_lspLoop: "trace (snd (snd (lspLoop env fs acc n w))) = trace w"
proof (induction fs arbitrary: acc n w)
  case Nil
  then show ?case by simp
next
  case (Cons f fs)
  show ?case
  proof (cases "lspFile env f w")
    case (Pair r w')
    with trace_lspFile[of env f w] have t: "trace w' = trace w" by simp
    from Pair t Cons.IH show ?thesis by (cases r) simp_all
  qed
qed

lemma trace_getAllSupportedExtensions: "trace (snd (getAllSupportedExtensions w)) = trace w"
  by (simp add: getAllSupportedExtensions_def Let_def split: option.splits)

lemma calls_runLsp:
  "calls (snd (runLspAggregatedDiagnostics env d exts w)) = calls w @ [CallRunner Lsp d]"
proof -
  define w0 where "w0 = logEvent (CallRunner Lsp d) w"
  obtain ee w1 where e: "(case exts of Some given \<Rightarrow> (given, w0) | None \<Rightarrow> getAllSupportedExtensions w0) = (ee, w1)"
    by (cases "(case exts of Some given \<Rightarrow> (given, w0) | None \<Rightarrow> getAllSupportedExtensions w0)")
  have t1: "trace w1 = trace w0"
    using e trace_getAllSupportedExtensions[of w0] by (cases exts) auto
  show ?thesis
  proof (cases "findFiles env d ee [''node_modules'', ''dist'', ''build'', ''.git'']")
    case None
    with e t1 show ?thesis
      by (simp add: runLspAggregatedDiagnostics_def Let_def w0_def[symmetric] calls_def)
        (simp add: w0_def logEvent_def)
  next
    case (Some files)
    obtain a n w2 where l: "lspLoop env files [] 0 w1 = (a, n, w2)"
      by (cases "lspLoop env files [] 0 w1") auto
    with trace_lspLoop[of env files "[]" 0 w1] have "trace w2 = trace w1" by simp
    with Some e t1 l show ?thesis
      by (simp add: runLspAggregatedDiagnostics_def Let_def w0_def[symmetric] calls_def)
        (simp add: w0_def logEvent_def)
  qed
qed

lemma calls_runStrategy:
  "calls (snd (runStrategy env u rd w)) = calls w @ [CallRunner u rd]"
  by (cases u)
    (simp_all add: runStrategy_def split_beta calls_runTsc calls_runGo calls_runRust
      calls_runPython calls_runLsp)

text \<open>
  C5. With an explicit strategy, \<open>runDirectoryDiagnostics\<close> on a directory that passes
  the three checks returns the formatted result of the runner of that name, called on the
  resolved directory, and the calls of the run are that one call: the detector is not
  called and no other runner is. On a path that fails a check no call is made at all. In
  particular \<open>tsc\<close> on a directory without tsconfig.json gives the skipped result of the
  tsc runner, and the only call is the one of the tsc runner.
\<close>

theorem explicit_strategy_routing:
  fixes env :: "('l, 'c) Env"
  defines "valid \<equiv> \<lambda>d rd. existsSync env d \<and> (\<exists>st. statSync env d = Some st \<and> isDirectory st) \<and>
                            realpathSync env d = Some rd"
  shows
  "(valid d rd \<longrightarrow>
      runDirectoryDiagnostics env d (Named Tsc) w =
        (mapOutcome formatTscResult (ofOption (fst (runTscDiagnostics env rd w))),
         snd (runTscDiagnostics env rd w)) \<and>
      runDirectoryDiagnostics env d (Named Go) w =
        (mapOutcome formatGoResult (ofOption (fst (runGoDiagnostics env rd w))),
         snd (runGoDiagnostics env rd w)) \<and>
      runDirectoryDiagnostics env d (Named Rust) w =
        (mapOutcome (formatRustResult env) (ofSum (fst (runRustDiagnostics env rd w))),
         snd (runRustDiagnostics env rd w)) \<and>
      runDirectoryDiagnostics env d (Named Python) w =
        (mapOutcome formatPythonResult (ofOption (fst (runPythonDiagnostics env rd w))),
         snd (runPythonDiagnostics env rd w)) \<and>
      runDirectoryDiagnostics env d (Named Lsp) w =
        (mapOutcome (formatLspResult env) (ofOption (fst (runLspAggregatedDiagnostics env rd None w))),
         snd (runLspAggregatedDiagnostics env rd None w)) \<and>
      calls (snd (runDirectoryDiagnostics env d (Named u) w)) = calls w @ [CallRunner u rd]) \<and>
   (\<not> (\<exists>rd'. valid d rd') \<longrightarrow>
      calls (snd (runDirectoryDiagnostics env d (Named u) w)) = calls w) \<and>
   (valid d rd \<and> \<not> existsSync env (join env rd ''tsconfig.json'') \<longrightarrow>
      runDirectoryDiagnostics env d (Named Tsc) w =
        (Returns \<lparr>success = True, diagnostics = [], errorCount = 0, warningCount = 0,
                  strategy = Skipped,
                  summary = ''TypeScript diagnostics skipped: no tsconfig.json found in directory''\<rparr>,
         logEvent (CallRunner Tsc rd) w))"
proof -
  have a: "valid d rd \<Longrightarrow> runDirectoryDiagnostics env d (Named u) w = runStrategy env u rd w" for u
    by (auto simp: valid_def runDirectoryDiagnostics_def)
  have b: "\<not> (\<exists>rd'. valid d rd') \<Longrightarrow> snd (runDirectoryDiagnostics env d (Named u) w) = w"
    by (auto simp: valid_def runDirectoryDiagnostics_def split: option.splits)
  have c: "\<not> existsSync env (join env rd ''tsconfig.json'') \<Longrightarrow>
      runStrategy env Tsc rd w =
        (Returns \<lparr>success = True, diagnostics = [], errorCount = 0, warningCount = 0,
                  strategy = Skipped,
                  summary = ''TypeScript diagnostics skipped: no tsconfig.json found in directory''\<rparr>,
         logEvent (CallRunner Tsc rd) w)"
    by (simp add: runStrategy_def runTscDiagnostics_def Let_def skippedResult_def ofOption_def
        mapOutcome_def formatTscResult_def skippedReason_def makeSkippedResult_def)
  show ?thesis
    using a b c calls_runStrategy[of env u rd w]
    by (auto simp: runStrategy_def split_beta)
qed

theorem explicit_strategy_routing_witness:
  "runDirectoryDiagnostics demoEnv ''/go'' (Named Tsc) demoWorld =
     (Returns \<lparr>success = True, diagnostics = [], errorCount = 0, warningCount = 0,
               strategy = Skipped,
               summary = ''TypeScript diagnostics skipped: no tsconfig.json found in directory''\<rparr>,
      \<lparr>trace = [CallRunner Tsc ''/go''], cachedExtensions = None, lspState = 0\<rparr>) \<and>
   fst (detectProjectType demoEnv ''/go'' demoWorld) = PGo \<and>
   calls (snd (runDirectoryDiagnostics demoEnv ''/nowhere'' (Named Lsp) demoWorld)) = []"
proof -
  note go = explicit_strategy_routing [where env = demoEnv and d = "''/go''" and rd = "''/go''"
      and u = Tsc and w = demoWorld]
  note nowhere = explicit_strategy_routing [where env = demoEnv and d = "''/nowhere''"
      and rd = "''/nowhere''" and u = Lsp and w = demoWorld]
  have 1: "runDirectoryDiagnostics demoEnv ''/go'' (Named Tsc) demoWorld =
     (Returns \<lparr>success = True, diagnostics = [], errorCount = 0, warningCount = 0,
               strategy = Skipped,
               summary = ''TypeScript diagnostics skipped: no tsconfig.json found in directory''\<rparr>,
      \<lparr>trace = [CallRunner Tsc ''/go''], cachedExtensions = None, lspState = 0\<rparr>)"
    using go [THEN conjunct2, THEN conjunct2]
    by (simp add: demoEnv_fields demoWorld_def logEvent_def)
  have 2: "fst (detectProjectType demoEnv ''/go'' demoWorld) = PGo"
    by (simp add: demoEnv_fields detectProjectType_def)
  have 3: "calls (snd (runDirectoryDiagnostics demoEnv ''/nowhere'' (Named Lsp) demoWorld)) = []"
    using nowhere [THEN conjunct2, THEN conjunct1]
    by (simp add: demoEnv_fields demoWorld_def calls_def)
  from 1 2 3 show ?thesis by simp
qed

section \<open>The aggregated diagnostics of the language servers\<close>

lemma lspLoop_processed:
  "fst (lspLoop env fs acc n w) = acc @ concat (map withFile (processed env fs w)) \<and>
   fst (snd (lspLoop env fs acc n w)) = n + length (processed env fs w)"
proof (induction fs arbitrary: acc n w)
  case Nil
  then show ?case by simp
next
  case (Cons f fs)
  show ?case
  proof (cases "lspFile env f w")
    case (Pair r w')
    then show ?thesis using Cons.IH by (cases r) (simp_all add: withFile_def)
  qed
qed

lemma count_two_severities:
  fixes xs :: "LspDiagnosticWithFile list"
  shows "length (filter (\<lambda>d. lspSeverity (diagnostic d) = 1) xs) +
         length (filter (\<lambda>d. lspSeverity (diagnostic d) = 2) xs) +
         length (filter (\<lambda>d. lspSeverity (diagnostic d) \<noteq> 1 \<and> lspSeverity (diagnostic d) \<noteq> 2) xs) =
         length xs"
  by (induction xs) auto

lemma count_other_severity:
  fixes xs :: "LspDiagnosticWithFile list"
  assumes "\<exists>x \<in> set xs. lspSeverity (diagnostic x) \<noteq> 1 \<and> lspSeverity (diagnostic x) \<noteq> 2"
  shows "length (filter (\<lambda>d. lspSeverity (diagnostic d) = 1) xs) +
         length (filter (\<lambda>d. lspSeverity (diagnostic d) = 2) xs) < length xs"
proof -
  from assms have "filter (\<lambda>d. lspSeverity (diagnostic d) \<noteq> 1 \<and> lspSeverity (diagnostic d) \<noteq> 2) xs \<noteq> []"
    by (simp add: filter_empty_conv)
  then have "0 < length (filter (\<lambda>d. lspSeverity (diagnostic d) \<noteq> 1 \<and> lspSeverity (diagnostic d) \<noteq> 2) xs)"
    by simp
  with count_two_severities[of xs] show ?thesis by linarith
qed

text \<open>
  C9. In every result that \<open>runLspAggregatedDiagnostics\<close> returns, the diagnostics are all
  the diagnostics read back for the files processed to the end, each with its file, in
  order and whatever their severity; \<open>filesChecked\<close> is the number of these files;
  \<open>errorCount\<close> counts the diagnostics of severity 1 and \<open>warningCount\<close> those of
  severity 2. So when a diagnostic has another severity, the two counts add up to less
  than the number of diagnostics.
\<close>

theorem lsp_aggregation_counts:
  assumes run: "runLspAggregatedDiagnostics env d exts w = (Some r, w')"
  shows "\<exists>effectiveExtensions w1 files.
      (case exts of
         Some given \<Rightarrow> (given, logEvent (CallRunner Lsp d) w)
       | None \<Rightarrow> getAllSupportedExtensions (logEvent (CallRunner Lsp d) w)) =
        (effectiveExtensions, w1) \<and>
      findFiles env d effectiveExtensions [''node_modules'', ''dist'', ''build'', ''.git''] =
        Some files \<and>
      diagnostics r = concat (map withFile (processed env files w1)) \<and>
      filesChecked r = length (processed env files w1) \<and>
      errorCount r = length (filter (\<lambda>x. lspSeverity (diagnostic x) = 1) (diagnostics r)) \<and>
      warningCount r = length (filter (\<lambda>x. lspSeverity (diagnostic x) = 2) (diagnostics r)) \<and>
      ((\<exists>x \<in> set (diagnostics r). lspSeverity (diagnostic x) \<noteq> 1 \<and> lspSeverity (diagnostic x) \<noteq> 2)
         \<longrightarrow> errorCount r + warningCount r < length (diagnostics r))"
proof -
  define w0 where "w0 = logEvent (CallRunner Lsp d) w"
  obtain ee w1 where e: "(case exts of Some given \<Rightarrow> (given, w0) | None \<Rightarrow> getAllSupportedExtensions w0) = (ee, w1)"
    by (cases "(case exts of Some given \<Rightarrow> (given, w0) | None \<Rightarrow> getAllSupportedExtensions w0)")
  from run e obtain files where
    ff: "findFiles env d ee [''node_modules'', ''dist'', ''build'', ''.git''] = Some files"
    by (cases "findFiles env d ee [''node_modules'', ''dist'', ''build'', ''.git'']")
      (auto simp: runLspAggregatedDiagnostics_def Let_def w0_def[symmetric])
  obtain a n w2 where l: "lspLoop env files [] 0 w1 = (a, n, w2)"
    by (cases "lspLoop env files [] 0 w1") auto
  from lspLoop_processed[of env files "[]" 0 w1] l have
    a: "a = concat (map withFile (processed env files w1))" and
    n: "n = length (processed env files w1)" by simp_all
  from run e ff l have r: "r = \<lparr>success = (length (filter (\<lambda>x. lspSeverity (diagnostic x) = 1) a) = 0),
      diagnostics = a,
      errorCount = length (filter (\<lambda>x. lspSeverity (diagnostic x) = 1) a),
      warningCount = length (filter (\<lambda>x. lspSeverity (diagnostic x) = 2) a),
      filesChecked = n\<rparr>"
    by (simp add: runLspAggregatedDiagnostics_def Let_def w0_def[symmetric])
  have "errorCount r + warningCount r < length (diagnostics r)"
    if "\<exists>x \<in> set (diagnostics r). lspSeverity (diagnostic x) \<noteq> 1 \<and> lspSeverity (diagnostic x) \<noteq> 2"
    using that count_other_severity[of "diagnostics r"] r by simp
  with r a n e ff show ?thesis
    unfolding w0_def
    by (intro exI[of _ ee] exI[of _ w1] exI[of _ files]) simp
qed

theorem lsp_aggregation_counts_witness:
  "runLspAggregatedDiagnostics demoEnv ''/empty'' (Some [''.ts'']) demoWorld =
     (Some \<lparr>success = False,
        diagnostics =
          [\<lparr>filePath = ''/empty/a.ts'',
            diagnostic = \<lparr>lspLine = 1, lspColumn = 1, lspMessage = ''e'', lspSeverity = 1, lspCode = None\<rparr>\<rparr>,
           \<lparr>filePath = ''/empty/a.ts'',
            diagnostic = \<lparr>lspLine = 2, lspColumn = 1, lspMessage = ''h'', lspSeverity = 4, lspCode = None\<rparr>\<rparr>],
        errorCount = 1, warningCount = 0, filesChecked = 1\<rparr>,
      \<lparr>trace = [CallRunner Lsp ''/empty''], cachedExtensions = None, lspState = 1\<rparr>) \<and>
   (1::nat) + 0 < 2"
proof -
  have run: "runLspAggregatedDiagnostics demoEnv ''/empty'' (Some [''.ts'']) demoWorld =
     (Some \<lparr>success = False,
        diagnostics =
          [\<lparr>filePath = ''/empty/a.ts'',
            diagnostic = \<lparr>lspLine = 1, lspColumn = 1, lspMessage = ''e'', lspSeverity = 1, lspCode = None\<rparr>\<rparr>,
           \<lparr>filePath = ''/empty/a.ts'',
            diagnostic = \<lparr>lspLine = 2, lspColumn = 1, lspMessage = ''h'', lspSeverity = 4, lspCode = None\<rparr>\<rparr>],
        errorCount = 1, warningCount = 0, filesChecked = 1\<rparr>,
      \<lparr>trace = [CallRunner Lsp ''/empty''], cachedExtensions = None, lspState = 1\<rparr>)"
    by (simp add: runLspAggregatedDiagnostics_def demo_walk Let_def logEvent_def demoWorld_def
        lspFile_def demoEnv_fields)
  from lsp_aggregation_counts[OF run] show ?thesis using run by auto
qed

end
